theory Spec2Isabelle
  imports Complex_Main "HOL-Library.Word"
begin

unbundle bit_operations_syntax

section \<open>Machine types and C arithmetic\<close>

type_synonym u8 = "8 word"
type_synonym u16 = "16 word"
type_synonym u32 = "32 word"

text \<open>
  C integer division truncates towards zero; HOL's \<open>div\<close> on \<open>int\<close> rounds towards
  minus infinity. Every \<open>/\<close> of the sources on a value that can be negative goes through
  \<open>c_div\<close>.
\<close>

definition c_div :: "int \<Rightarrow> int \<Rightarrow> int" where
  "c_div a d = sgn a * sgn d * (\<bar>a\<bar> div \<bar>d\<bar>)"

text \<open>
  A run-time fault of the C program: reading or writing through a null pointer, or an
  array access beyond the allocated block.
\<close>

datatype fault = Null_deref | Out_of_bounds

section \<open>The strip driver (src/WS2812.c, src/WS2812.h)\<close>

subsection \<open>Data\<close>

record ws2812_pixel_t =
  r :: u8
  g :: u8
  b :: u8

text \<open>
  \<open>ws2812_t\<close>. The \<open>pixels\<close> pointer is \<open>None\<close> when null, otherwise the block it
  points to. A strip pointer \<open>ws2812_t *\<close> is a \<open>ws2812_t option\<close>, \<open>None\<close> for \<open>NULL\<close>.
\<close>

record ws2812_t =
  channel :: nat
  gpio :: nat
  pixel_count :: u16
  pixels :: "ws2812_pixel_t list option"
  brightness :: u8

text \<open>
  One entry of the pulse train handed to the RMT peripheral (\<open>rmt_item32_t\<close> of the
  vendor SDK): a level and a duration in peripheral ticks for the first phase, then a level
  and a duration for the second phase. The durations written by this program are at most
  34, far below the 15 bits of the hardware field.
\<close>

record rmt_item32_t =
  level0 :: nat
  duration0 :: nat
  level1 :: nat
  duration1 :: nat

definition WS2812_T0H_NS :: nat where "WS2812_T0H_NS = 400"
definition WS2812_T0L_NS :: nat where "WS2812_T0L_NS = 850"
definition WS2812_T1H_NS :: nat where "WS2812_T1H_NS = 800"
definition WS2812_T1L_NS :: nat where "WS2812_T1L_NS = 450"

definition black :: ws2812_pixel_t where
  "black = \<lparr>r = 0, g = 0, b = 0\<rparr>"

subsection \<open>Buffer operations\<close>

definition ws2812_set_brightness :: "ws2812_t option \<Rightarrow> u8 \<Rightarrow> ws2812_t option" where
  "ws2812_set_brightness strip level =
     (case strip of None \<Rightarrow> None
      | Some s \<Rightarrow> Some (s\<lparr>brightness := level\<rparr>))"

definition ws2812_set_pixel_rgb ::
    "ws2812_t option \<Rightarrow> u16 \<Rightarrow> ws2812_pixel_t \<Rightarrow> fault + ws2812_t option" where
  "ws2812_set_pixel_rgb strip index color =
     (case strip of None \<Rightarrow> Inr None
      | Some s \<Rightarrow>
          if index < pixel_count s then
            (case pixels s of None \<Rightarrow> Inl Null_deref
             | Some ps \<Rightarrow>
                 if unat index < length ps
                 then Inr (Some (s\<lparr>pixels := Some (ps[unat index := color])\<rparr>))
                 else Inl Out_of_bounds)
          else Inr (Some s))"

definition ws2812_set_pixel ::
    "ws2812_t option \<Rightarrow> u16 \<Rightarrow> u8 \<Rightarrow> u8 \<Rightarrow> u8 \<Rightarrow> fault + ws2812_t option" where
  "ws2812_set_pixel strip index rv gv bv =
     (case strip of None \<Rightarrow> Inr None
      | Some s \<Rightarrow>
          if index < pixel_count s then
            (case pixels s of None \<Rightarrow> Inl Null_deref
             | Some ps \<Rightarrow>
                 if unat index < length ps
                 then Inr (Some (s\<lparr>pixels :=
                        Some (ps[unat index := \<lparr>r = rv, g = gv, b = bv\<rparr>])\<rparr>))
                 else Inl Out_of_bounds)
          else Inr (Some s))"

definition ws2812_get_pixel :: "ws2812_t option \<Rightarrow> u16 \<Rightarrow> fault + ws2812_pixel_t" where
  "ws2812_get_pixel strip index =
     (case strip of None \<Rightarrow> Inr black
      | Some s \<Rightarrow>
          if index < pixel_count s then
            (case pixels s of None \<Rightarrow> Inl Null_deref
             | Some ps \<Rightarrow>
                 if unat index < length ps then Inr (ps ! unat index)
                 else Inl Out_of_bounds)
          else Inr black)"

text \<open>
  \<open>ws2812_clear\<close>: \<open>memset\<close> over \<open>pixel_count\<close> entries of the block.
\<close>

definition ws2812_clear :: "ws2812_t option \<Rightarrow> fault + ws2812_t option" where
  "ws2812_clear strip =
     (case strip of None \<Rightarrow> Inr None
      | Some s \<Rightarrow>
          (case pixels s of None \<Rightarrow> Inr (Some s)
           | Some ps \<Rightarrow>
               if unat (pixel_count s) \<le> length ps
               then Inr (Some (s\<lparr>pixels :=
                      Some (replicate (unat (pixel_count s)) black
                            @ drop (unat (pixel_count s)) ps)\<rparr>))
               else Inl Out_of_bounds))"

text \<open>
  \<open>ws2812_free\<close> returns nothing; its effect is the list of release actions it performs.
\<close>

datatype release = Rmt_driver_uninstall nat | Free_pixels | Free_strip

definition ws2812_free :: "ws2812_t option \<Rightarrow> release list" where
  "ws2812_free strip =
     (case strip of None \<Rightarrow> []
      | Some s \<Rightarrow>
          Rmt_driver_uninstall (channel s)
          # (case pixels s of None \<Rightarrow> [] | Some ps \<Rightarrow> [Free_pixels])
          @ [Free_strip])"

subsection \<open>Pulse encoder\<close>

text \<open>
  \<open>ws2812_write_byte\<close>: the loop \<open>for (bit = 7; bit >= 0; bit--)\<close> writes one item per
  bit through the advancing pointer; the model returns the items in the order written.
  \<open>ws2812_write_bits n byte\<close> is the loop from \<open>bit = n - 1\<close> down to \<open>0\<close>,
  and \<open>byte & (1 << bit)\<close> is the test \<open>byte AND push_bit bt 1 \<noteq> 0\<close>.
\<close>

definition item_one :: rmt_item32_t where
  "item_one = \<lparr>level0 = 1, duration0 = WS2812_T1H_NS div 25,
               level1 = 0, duration1 = WS2812_T1L_NS div 25\<rparr>"

definition item_zero :: rmt_item32_t where
  "item_zero = \<lparr>level0 = 1, duration0 = WS2812_T0H_NS div 25,
                level1 = 0, duration1 = WS2812_T0L_NS div 25\<rparr>"

fun ws2812_write_bits :: "nat \<Rightarrow> u8 \<Rightarrow> rmt_item32_t list" where
  "ws2812_write_bits 0 byte = []"
| "ws2812_write_bits (Suc bt) byte =
     (if byte AND push_bit bt 1 \<noteq> 0 then item_one else item_zero)
     # ws2812_write_bits bt byte"

definition ws2812_write_byte :: "u8 \<Rightarrow> rmt_item32_t list" where
  "ws2812_write_byte byte = ws2812_write_bits 8 byte"

subsection \<open>Transmit\<close>

text \<open>
  \<open>(strip->pixels[i].r * strip->brightness) / 255\<close>, computed in \<open>int\<close> and stored in a
  \<open>uint8_t\<close>.
\<close>

definition scale :: "u8 \<Rightarrow> u8 \<Rightarrow> u8" where
  "scale c level = word_of_nat ((unat c * unat level) div 255)"

text \<open>
  The pixel loop of \<open>ws2812_show\<close>, \<open>for (i = 0; i < strip->pixel_count; i++)\<close>, with the
  items written so far as accumulator. Per pixel the three scaled channels are encoded
  green first, then red, then blue.
\<close>

function show_loop ::
    "ws2812_pixel_t list \<Rightarrow> u8 \<Rightarrow> nat \<Rightarrow> nat \<Rightarrow> rmt_item32_t list
     \<Rightarrow> fault + rmt_item32_t list" where
  "show_loop ps level count i items =
     (if i < count then
        (if i < length ps then
           (let rv = scale (r (ps ! i)) level;
                gv = scale (g (ps ! i)) level;
                bv = scale (b (ps ! i)) level
            in show_loop ps level count (Suc i)
                 (items @ ws2812_write_byte gv @ ws2812_write_byte rv @ ws2812_write_byte bv))
         else Inl Out_of_bounds)
      else Inr items)"
  by pat_completeness auto
termination
  by (relation "measure (\<lambda>(ps, level, count, i, items). count - i)") auto

text \<open>
  What one call of \<open>ws2812_show\<close> does: \<open>rmt_written\<close> is the pulse train passed to
  \<open>rmt_write_items\<close> (\<open>None\<close> when the call is never made), \<open>logged\<close> the error lines
  written with \<open>ESP_LOGE\<close>, \<open>strip_after\<close> the strip as the call leaves it. The function is
  \<open>void\<close>: the return value carries nothing, and the strip is the only memory of the
  caller it can reach. The first argument says whether \<open>malloc\<close> returns a block.
\<close>

record show_result =
  rmt_written :: "rmt_item32_t list option"
  logged :: "string list"
  strip_after :: "ws2812_t option"

definition ws2812_show :: "bool \<Rightarrow> ws2812_t option \<Rightarrow> fault + show_result" where
  "ws2812_show malloc_ok strip =
     (case strip of
        None \<Rightarrow> Inr \<lparr>rmt_written = None, logged = [], strip_after = strip\<rparr>
      | Some s \<Rightarrow>
          (case pixels s of
             None \<Rightarrow> Inr \<lparr>rmt_written = None, logged = [], strip_after = strip\<rparr>
           | Some ps \<Rightarrow>
               if \<not> malloc_ok
               then Inr \<lparr>rmt_written = None,
                         logged = [''Failed to allocate RMT items''],
                         strip_after = strip\<rparr>
               else
                 (case show_loop ps (brightness s) (unat (pixel_count s)) 0 [] of
                    Inl e \<Rightarrow> Inl e
                  | Inr items \<Rightarrow>
                      Inr \<lparr>rmt_written = Some items, logged = [], strip_after = strip\<rparr>)))"

text \<open>
  What a caller of the \<open>void\<close> function can observe once the call is over: that the
  program faulted, or else the memory reachable through the argument it passed.
\<close>

definition returned_to_caller :: "fault + show_result \<Rightarrow> fault + ws2812_t option" where
  "returned_to_caller res = (case res of Inl e \<Rightarrow> Inl e | Inr x \<Rightarrow> Inr (strip_after x))"

text \<open>
  The bytes on the wire in the words of the specification: every pixel in index order,
  each channel multiplied by the brightness and divided by 255 with the remainder
  dropped, green first, then red, then blue.
\<close>

definition wire_bytes :: "u8 \<Rightarrow> ws2812_pixel_t list \<Rightarrow> u8 list" where
  "wire_bytes level ps =
     concat (map (\<lambda>p. [word_of_nat (unat (g p) * unat level div 255),
                        word_of_nat (unat (r p) * unat level div 255),
                        word_of_nat (unat (b p) * unat level div 255)]) ps)"

text \<open>
  The receiving side of the protocol, for reading a pulse train back: a pair is a 1 when
  its high phase lasts longer than its low phase; the bits are shifted in one after the
  other, so that eight pairs make a byte, the most significant bit first; \<open>decode_train n\<close> reads \<open>n\<close> bytes off the front of a train.
\<close>

definition item_bit :: "rmt_item32_t \<Rightarrow> bool" where
  "item_bit item = (duration1 item < duration0 item)"

definition shift_in :: "u8 \<Rightarrow> rmt_item32_t \<Rightarrow> u8" where
  "shift_in acc item = push_bit 1 acc OR (if item_bit item then 1 else 0)"

definition decode_byte :: "rmt_item32_t list \<Rightarrow> u8" where
  "decode_byte items = foldl shift_in 0 items"

fun decode_train :: "nat \<Rightarrow> rmt_item32_t list \<Rightarrow> u8 list" where
  "decode_train 0 items = []"
| "decode_train (Suc n) items = decode_byte (take 8 items) # decode_train n (drop 8 items)"

text \<open>
  \<open>ws2812_init\<close>. The two arguments in front say whether \<open>malloc\<close> of the strip and
  \<open>calloc\<close> of the pixel block succeed; \<open>calloc\<close> hands out zeroed memory. The RMT channel
  is configured with \<open>clk_div = 2\<close>.
\<close>

definition ws2812_init :: "bool \<Rightarrow> bool \<Rightarrow> u16 \<Rightarrow> nat \<Rightarrow> nat \<Rightarrow> ws2812_t option" where
  "ws2812_init malloc_ok calloc_ok count pin chan =
     (if \<not> malloc_ok then None
      else if \<not> calloc_ok then None
      else Some \<lparr>channel = chan, gpio = pin, pixel_count = count,
                 pixels = Some (replicate (unat count) black), brightness = 255\<rparr>)"

definition ws2812_clk_div :: nat where
  "ws2812_clk_div = 2"

subsection \<open>The peripheral clock\<close>

text \<open>
  The RMT peripheral counts durations in ticks of its source clock divided by \<open>clk_div\<close>.
  The source clock is the 80 MHz APB clock of the chip, the value \<open>ws2812_init\<close> relies on
  when it comments \<open>clk_div = 2\<close> with "40MHz clock". The comment on
  \<open>ws2812_write_byte\<close> speaks of 50 ns per tick, which neither that clock nor the
  divisor 25 of the code bears out. Periods are in picoseconds, so that the 12.5 ns of the
  undivided clock stay integral.
\<close>

definition APB_CLK_FREQ :: nat where
  "APB_CLK_FREQ = 80000000"

definition rmt_tick_ps :: "nat \<Rightarrow> nat" where
  "rmt_tick_ps clk_div = clk_div * (1000000000000 div APB_CLK_FREQ)"

definition high_ps :: "nat \<Rightarrow> rmt_item32_t \<Rightarrow> nat" where
  "high_ps clk_div item = duration0 item * rmt_tick_ps clk_div"

definition low_ps :: "nat \<Rightarrow> rmt_item32_t \<Rightarrow> nat" where
  "low_ps clk_div item = duration1 item * rmt_tick_ps clk_div"

definition pair_ps :: "nat \<Rightarrow> rmt_item32_t \<Rightarrow> nat" where
  "pair_ps clk_div item = high_ps clk_div item + low_ps clk_div item"

section \<open>The stand-alone C variant (src/unnamed/part_001)\<close>

text \<open>
  This file carries its own copy of the encoder and of the display buffer. Its names
  clash with those of the main program and of the driver, so they carry the suffix
  \<open>_part001\<close>. The timing constants are the same four macros.
\<close>

definition item_one_part001 :: rmt_item32_t where
  "item_one_part001 = \<lparr>level0 = 1, duration0 = WS2812_T1H_NS div 10 * 8 div 100,
                       level1 = 0, duration1 = WS2812_T1L_NS div 10 * 8 div 100\<rparr>"

definition item_zero_part001 :: rmt_item32_t where
  "item_zero_part001 = \<lparr>level0 = 1, duration0 = WS2812_T0H_NS div 10 * 8 div 100,
                        level1 = 0, duration1 = WS2812_T0L_NS div 10 * 8 div 100\<rparr>"

text \<open>The inner loop of \<open>ws2812_write\<close>, over the bits of \<open>data[i]\<close>.\<close>

fun ws2812_write_bits_part001 :: "nat \<Rightarrow> u8 \<Rightarrow> rmt_item32_t list" where
  "ws2812_write_bits_part001 0 byte = []"
| "ws2812_write_bits_part001 (Suc bt) byte =
     (if byte AND push_bit bt 1 \<noteq> 0 then item_one_part001 else item_zero_part001)
     # ws2812_write_bits_part001 bt byte"

text \<open>The outer loop, over the \<open>len\<close> bytes of \<open>data\<close>.\<close>

fun ws2812_write_loop_part001 :: "u8 list \<Rightarrow> rmt_item32_t list" where
  "ws2812_write_loop_part001 [] = []"
| "ws2812_write_loop_part001 (byte # data) =
     ws2812_write_bits_part001 8 byte @ ws2812_write_loop_part001 data"

text \<open>
  \<open>ws2812_write\<close>: the pulse train passed to \<open>rmt_write_items\<close>, or \<open>None\<close> when
  \<open>malloc\<close> fails and the function returns without a call.
\<close>

definition ws2812_write_part001 :: "bool \<Rightarrow> u8 list \<Rightarrow> rmt_item32_t list option" where
  "ws2812_write_part001 malloc_ok data =
     (if \<not> malloc_ok then None else Some (ws2812_write_loop_part001 data))"

definition init_ws2812_clk_div_part001 :: nat where
  "init_ws2812_clk_div_part001 = 1"

text \<open>
  \<open>show_display\<close> packs the \<open>LED_COUNT\<close> entries of the global \<open>leds\<close> array, green, red,
  blue, and hands the bytes to \<open>ws2812_write\<close>.
\<close>

fun show_display_bytes_part001 :: "ws2812_pixel_t list \<Rightarrow> u8 list" where
  "show_display_bytes_part001 [] = []"
| "show_display_bytes_part001 (p # leds) = g p # r p # b p # show_display_bytes_part001 leds"

definition show_display_part001 :: "bool \<Rightarrow> ws2812_pixel_t list \<Rightarrow> rmt_item32_t list option" where
  "show_display_part001 malloc_ok leds =
     ws2812_write_part001 malloc_ok (show_display_bytes_part001 leds)"

definition get_index_part001 :: "int \<Rightarrow> int \<Rightarrow> int" where
  "get_index_part001 x y =
     (if x < 0 \<or> x \<ge> 16 \<or> y < 0 \<or> y \<ge> 16 then - 1
      else if y mod 2 = 0 then y * 16 + x
      else y * 16 + (16 - 1 - x))"

section \<open>The main program (src/unnamed/part_000)\<close>

subsection \<open>Coordinate mapper\<close>

text \<open>
  \<open>get_index\<close> returns \<open>y * MATRIX_WIDTH + (MATRIX_WIDTH - 1 - x)\<close> right after the range
  check. The parity test that follows this \<open>return\<close> in the source is never reached and
  has no counterpart here.
\<close>

definition MATRIX_WIDTH :: int where "MATRIX_WIDTH = 16"
definition MATRIX_HEIGHT :: int where "MATRIX_HEIGHT = 16"
definition LED_COUNT :: int where "LED_COUNT = MATRIX_WIDTH * MATRIX_HEIGHT"

definition get_index :: "int \<Rightarrow> int \<Rightarrow> int" where
  "get_index x y =
     (if x < 0 \<or> x \<ge> MATRIX_WIDTH \<or> y < 0 \<or> y \<ge> MATRIX_HEIGHT then - 1
      else y * MATRIX_WIDTH + (MATRIX_WIDTH - 1 - x))"

text \<open>
  \<open>set_pixel\<close> of the main program, on the global \<open>strip\<close>: coordinates that
  \<open>get_index\<close> rejects leave the strip alone.
\<close>

definition set_pixel ::
    "ws2812_t option \<Rightarrow> int \<Rightarrow> int \<Rightarrow> u8 \<Rightarrow> u8 \<Rightarrow> u8 \<Rightarrow> fault + ws2812_t option" where
  "set_pixel strip x y rv gv bv =
     (let idx = get_index x y
      in if idx \<ge> 0 \<and> idx < LED_COUNT
         then ws2812_set_pixel strip (word_of_int idx) rv gv bv
         else Inr strip)"

text \<open>
  The rule the unreachable part of \<open>get_index\<close> spells out in its comments ("even rows
  reversed, odd rows normal"), for comparison.
\<close>

definition serpentine_index :: "int \<Rightarrow> int \<Rightarrow> int" where
  "serpentine_index x y = (if y mod 2 = 0 then y * 16 + (15 - x) else y * 16 + x)"

subsection \<open>Distance sensor reader\<close>

text \<open>
  The globals and function-local statics \<open>read_tof_sensor\<close> works on: the flag
  \<open>sensor_initialized\<close>, whether the pointer \<open>tof_sensor\<close> is non-null, the throttle
  counter \<open>reading_count\<close> of the log lines, and the synthetic distance \<open>sim_dist\<close> with
  its direction \<open>dir\<close>. The log lines themselves are not modelled. \<open>reading_count\<close> is a
  C \<open>int\<close> that only grows; it is an unbounded integer here.
\<close>

record sensor_state =
  sensor_initialized :: bool
  tof_sensor :: bool
  reading_count :: int
  sim_dist :: u16
  dir :: int

text \<open>
  The state after \<open>init_tof_sensor\<close>, whose argument says whether the sensor's own
  \<open>init\<close> succeeded: on failure the pointer is reset to null and the flag cleared.
\<close>

definition init_tof_sensor :: "bool \<Rightarrow> sensor_state" where
  "init_tof_sensor init_ok =
     \<lparr>sensor_initialized = init_ok, tof_sensor = init_ok, reading_count = 0,
      sim_dist = 200, dir = 1\<rparr>"

text \<open>
  The synthetic branch at the end of \<open>read_tof_sensor\<close>:
  \<open>sim_dist += dir * 5; if (sim_dist > 350) dir = -1; if (sim_dist < 100) dir = 1;\<close>
\<close>

definition simulate :: "sensor_state \<Rightarrow> u16 \<times> sensor_state" where
  "simulate s =
     (let sd = sim_dist s + word_of_int (dir s * 5);
          d1 = (if sd > 350 then - 1 else dir s);
          d2 = (if sd < 100 then 1 else d1)
      in (sd, s\<lparr>sim_dist := sd, dir := d2, reading_count := reading_count s + 1\<rparr>))"

text \<open>
  \<open>read_tof_sensor\<close>. The first argument is what the hardware does when
  \<open>tof_sensor->read(&distance_mm)\<close> is called: \<open>Some raw\<close> when the call returns true
  having stored \<open>raw\<close>, \<open>None\<close> when it returns false. It is not consulted when the sensor
  was never initialised.
\<close>

definition read_tof_sensor :: "u16 option \<Rightarrow> sensor_state \<Rightarrow> u16 \<times> sensor_state" where
  "read_tof_sensor hw s =
     (if sensor_initialized s \<and> tof_sensor s then
        (case hw of
           Some raw \<Rightarrow>
             (let distance_mm = (if raw < 50 then 50 else raw);
                  distance_mm = (if distance_mm > 400 then 400 else distance_mm)
              in (distance_mm, s\<lparr>reading_count := reading_count s + 1\<rparr>))
         | None \<Rightarrow> simulate (s\<lparr>reading_count := reading_count s + 1\<rparr>))
      else simulate s)"

subsection \<open>Position mapper\<close>

text \<open>
  The arithmetic of \<open>get_sensor_position\<close> on the value \<open>dist\<close> that \<open>read_tof_sensor\<close>
  returned: \<open>dist\<close> is promoted to \<open>int\<close>, so \<open>dist - 50\<close> can be negative and the
  division truncates towards zero. The product lies between \<open>-750\<close> and \<open>982275\<close>, within
  32 bits. The stand-alone variant computes the same expression.
\<close>

definition sensor_position :: "u16 \<Rightarrow> int" where
  "sensor_position dst =
     (let pos = c_div ((uint dst - 50) * 15) 350;
          pos = (if pos < 0 then 0 else pos);
          pos = (if pos > 15 then 15 else pos)
      in pos)"

definition get_sensor_position :: "u16 option \<Rightarrow> sensor_state \<Rightarrow> int \<times> sensor_state" where
  "get_sensor_position hw s =
     (let (dst, s') = read_tof_sensor hw s in (sensor_position dst, s'))"

text \<open>
  The position scale in the words of the specification,
  \<open>clamp(round((d - 50) * 15 / 350), 0, 15)\<close>, over the reals, and the same scale with the
  quotient rounded down instead.
\<close>

definition spec_position :: "u16 \<Rightarrow> int" where
  "spec_position d = max 0 (min 15 (round ((real_of_int (uint d) - 50) * 15 / 350)))"

definition floor_position :: "u16 \<Rightarrow> int" where
  "floor_position d = max 0 (min 15 \<lfloor>(real_of_int (uint d) - 50) * 15 / 350\<rfloor>)"

text \<open>All values \<open>read_tof_sensor\<close> returns over a sequence of hardware outcomes.\<close>

fun read_all :: "u16 option list \<Rightarrow> sensor_state \<Rightarrow> u16 list" where
  "read_all [] s = []"
| "read_all (hw # hws) s =
     (let (d, s') = read_tof_sensor hw s in d # read_all hws s')"

text \<open>
  The invariant of the synthetic sequence: the distance stays between 95 and 355, the
  direction is 1 or -1, and it already points back whenever the distance is beyond one of
  the turning points 350 and 100.
\<close>

definition sim_inv :: "sensor_state \<Rightarrow> bool" where
  "sim_inv s =
     (95 \<le> sim_dist s \<and> sim_dist s \<le> 355 \<and> (dir s = 1 \<or> dir s = - 1)
      \<and> (if 350 < sim_dist s then dir s = - 1 else True)
      \<and> (if sim_dist s < 100 then dir s = 1 else True))"

subsection \<open>Selection state machine\<close>

datatype game_mode_t = MENU | PONG | FLAPPY | CATCH | INVADERS

definition MIN_SELECTION_DISTANCE :: u16 where "MIN_SELECTION_DISTANCE = 100"
definition MAX_SELECTION_DISTANCE :: u16 where "MAX_SELECTION_DISTANCE = 350"
definition SELECTION_HOLD_TIME :: u32 where "SELECTION_HOLD_TIME = 5000"

record menu_state =
  sensor_distance :: u16
  current_mode :: game_mode_t
  menu_selection :: int
  last_stable_selection :: int
  selection_start_time :: u32

text \<open>The globals as initialised at program start.\<close>

definition menu_boot :: menu_state where
  "menu_boot = \<lparr>sensor_distance = 200, current_mode = MENU, menu_selection = - 1,
                last_stable_selection = - 1, selection_start_time = 0\<rparr>"

text \<open>
  \<open>esp_timer_get_time() / 1000\<close> stored in a \<open>uint32_t\<close>: the 64-bit microsecond count
  in milliseconds, reduced modulo \<open>2 ^ 32\<close>.
\<close>

definition timer_ms :: "int \<Rightarrow> u32" where
  "timer_ms now_us = word_of_int (c_div now_us 1000)"

definition in_selection_range :: "u16 \<Rightarrow> bool" where
  "in_selection_range d = (d \<ge> MIN_SELECTION_DISTANCE \<and> d \<le> MAX_SELECTION_DISTANCE)"

text \<open>\<open>get_sensor_position() / 4\<close>, capped at 3.\<close>

definition quadrant :: "int \<Rightarrow> int" where
  "quadrant pos = (let new_selection = c_div pos 4
                   in if new_selection > 3 then 3 else new_selection)"

text \<open>The inner \<open>switch (menu_selection)\<close>, which has no default case.\<close>

definition start_game :: "int \<Rightarrow> game_mode_t \<Rightarrow> game_mode_t" where
  "start_game sel mode =
     (if sel = 0 then PONG else if sel = 1 then FLAPPY
      else if sel = 2 then CATCH else if sel = 3 then INVADERS else mode)"

text \<open>
  The body of \<open>case MENU\<close> after \<open>sensor_distance\<close> has been stored: \<open>pos\<close> is the value
  \<open>get_sensor_position()\<close> returns, consulted in the in-range branch only, and \<open>now_us\<close>
  the value of \<open>esp_timer_get_time()\<close>. Drawing the menu changes none of these globals.
\<close>

definition menu_case :: "int \<Rightarrow> int \<Rightarrow> menu_state \<Rightarrow> menu_state" where
  "menu_case pos now_us m =
     (if in_selection_range (sensor_distance m) then
        (let new_selection = quadrant pos in
         if new_selection \<noteq> last_stable_selection m then
           m\<lparr>last_stable_selection := new_selection,
             selection_start_time := timer_ms now_us,
             menu_selection := new_selection\<rparr>
         else
           (let current_time = timer_ms now_us;
                elapsed = current_time - selection_start_time m
            in if elapsed \<ge> SELECTION_HOLD_TIME then
                 m\<lparr>current_mode := start_game (menu_selection m) (current_mode m),
                   menu_selection := - 1,
                   last_stable_selection := - 1,
                   selection_start_time := 0\<rparr>
               else m))
      else
        m\<lparr>menu_selection := - 1, last_stable_selection := - 1, selection_start_time := 0\<rparr>)"

text \<open>
  One iteration of the loop of \<open>game_task\<close> taken in mode \<open>MENU\<close>: the sensor is read
  into \<open>sensor_distance\<close>; when that value is in the selection range,
  \<open>get_sensor_position\<close> reads the sensor a second time. \<open>hw1\<close> and \<open>hw2\<close> are the
  hardware outcomes of the two reads.
\<close>

definition game_task_menu ::
    "u16 option \<Rightarrow> u16 option \<Rightarrow> int \<Rightarrow> sensor_state \<times> menu_state
     \<Rightarrow> sensor_state \<times> menu_state" where
  "game_task_menu hw1 hw2 now_us st =
     (let (d, s1) = read_tof_sensor hw1 (fst st);
          m = (snd st)\<lparr>sensor_distance := d\<rparr>;
          (pos, s2) = (if in_selection_range d then get_sensor_position hw2 s1 else (0, s1))
      in (s2, menu_case pos now_us m))"

text \<open>
  A run of menu iterations, each given by the value stored in \<open>sensor_distance\<close>, the
  position \<open>get_sensor_position\<close> returns and the timer value. The menu code runs only
  while the mode is \<open>MENU\<close>; the run ends with the iteration that leaves it.
\<close>

fun menu_run :: "(u16 \<times> int \<times> int) list \<Rightarrow> menu_state \<Rightarrow> menu_state" where
  "menu_run [] m = m"
| "menu_run ((d, pos, now_us) # ticks) m =
     (if current_mode m = MENU
      then menu_run ticks (menu_case pos now_us (m\<lparr>sensor_distance := d\<rparr>))
      else m)"

text \<open>
  The states of the selection machine in terms of the globals: \<open>Idle\<close> is
  \<open>last_stable_selection = -1\<close>; \<open>Candidate(q, t0)\<close> is the menu mode with both selection
  variables equal to \<open>q\<close> and the start time \<open>t0\<close>; \<open>Confirmed\<close> is the step that
  leaves mode \<open>MENU\<close>. A tick holds the candidate when its stored distance is in the
  selection range, its position maps to the quadrant \<open>q\<close> and the millisecond timer has
  advanced by less than the hold time since \<open>t0\<close>.
\<close>

definition candidate :: "int \<Rightarrow> u32 \<Rightarrow> menu_state \<Rightarrow> bool" where
  "candidate q t0 m =
     (current_mode m = MENU \<and> last_stable_selection m = q \<and> menu_selection m = q
      \<and> selection_start_time m = t0)"

definition holding :: "int \<Rightarrow> u32 \<Rightarrow> (u16 \<times> int \<times> int) \<Rightarrow> bool" where
  "holding q t0 tick =
     (in_selection_range (fst tick) \<and> quadrant (fst (snd tick)) = q
      \<and> timer_ms (snd (snd tick)) - t0 < SELECTION_HOLD_TIME)"

section \<open>Properties of the position mapper\<close>

lemma c_div_nonneg: "0 \<le> a \<Longrightarrow> 0 < d \<Longrightarrow> c_div a d = a div d"
  by (cases "a = 0") (simp_all add: c_div_def)

lemma c_div_neg: "a < 0 \<Longrightarrow> 0 < d \<Longrightarrow> c_div a d \<le> 0"
  by (simp add: c_div_def mult_le_0_iff pos_imp_zdiv_nonneg_iff)

lemma floor_scale: "\<lfloor>(real_of_int k - 50) * 15 / 350\<rfloor> = ((k - 50) * 15) div 350"
proof -
  have "(real_of_int k - 50) * 15 / 350 = real_of_int ((k - 50) * 15) / real_of_int 350"
    by simp
  then show ?thesis
    by (simp only: floor_divide_of_int_eq)
qed

text \<open>
  Truncation towards zero and rounding down differ only on negative quotients, which the
  lower clamp sends to 0 either way.
\<close>

lemma sensor_position_floor: "sensor_position d = floor_position d"
proof (cases "uint d < 50")
  case True
  then have neg: "(uint d - 50) * 15 < 0" by simp
  then have "c_div ((uint d - 50) * 15) 350 \<le> 0" by (rule c_div_neg) simp
  moreover from neg have "((uint d - 50) * 15) div 350 < 0"
    by (simp add: div_neg_pos_less0)
  ultimately show ?thesis
    unfolding sensor_position_def floor_position_def floor_scale Let_def by simp
next
  case False
  then have "0 \<le> (uint d - 50) * 15" by simp
  then have "c_div ((uint d - 50) * 15) 350 = ((uint d - 50) * 15) div 350"
    by (rule c_div_nonneg) simp
  then show ?thesis
    unfolding sensor_position_def floor_position_def floor_scale Let_def
    by (simp add: max_def min_def)
qed

lemma floor_position_mono: "d1 \<le> d2 \<Longrightarrow> floor_position d1 \<le> floor_position d2"
proof -
  assume "d1 \<le> d2"
  then have "uint d1 \<le> uint d2" by (simp add: word_le_def)
  then have "((uint d1 - 50) * 15) div 350 \<le> ((uint d2 - 50) * 15) div 350"
    by (intro zdiv_mono1) simp_all
  then show ?thesis
    unfolding floor_position_def floor_scale by (simp add: max_def min_def)
qed

lemma sensor_position_50: "sensor_position 50 = 0"
  by (simp add: sensor_position_def c_div_def)

lemma sensor_position_400: "sensor_position 400 = 15"
  by (simp add: sensor_position_def c_div_def)

lemma sensor_position_range: "0 \<le> sensor_position d \<and> sensor_position d \<le> 15"
  by (simp add: sensor_position_def Let_def)

text \<open>
  C1, as stated: for every distance \<open>d\<close> in [50,400] the position is
  \<open>clamp(round((d - 50) * 15 / 350), 0, 15)\<close>. The code divides in integers and drops the
  remainder, so the claim fails wherever the quotient has a fractional part of one half
  or more: at 62 mm the quotient is 180/350, which rounds to 1, and the code returns 0.
\<close>

theorem position_round_counterexample:
  "(50 :: u16) \<le> 62 \<and> (62 :: u16) \<le> 400
   \<and> fst (get_sensor_position (Some 62) (init_tof_sensor True)) = 0
   \<and> sensor_position 62 = 0 \<and> spec_position 62 = 1
   \<and> sensor_position 62 \<noteq> spec_position 62"
  by (simp add: get_sensor_position_def read_tof_sensor_def init_tof_sensor_def
      sensor_position_def spec_position_def c_div_def round_def floor_eq_iff)

text \<open>
  C1, amended: for every distance \<open>d\<close> the position \<open>get_sensor_position\<close> returns is
  \<open>clamp(floor((d - 50) * 15 / 350), 0, 15)\<close>, the linear scale of ratio 15/350 with the
  quotient rounded down instead of to the nearest integer; it maps 50 mm to 0 and
  400 mm to 15.
\<close>

theorem position_floor_scale:
  "fst (get_sensor_position hw s) = sensor_position (fst (read_tof_sensor hw s))
   \<and> sensor_position d = floor_position d
   \<and> sensor_position 50 = 0 \<and> sensor_position 400 = 15"
  by (simp add: get_sensor_position_def split_beta sensor_position_floor [symmetric]
      sensor_position_50 sensor_position_400)

text \<open>
  C8: for all distances in [50,400] the position is non-decreasing in the distance, and
  the boundary values are \<open>position(50) = 0\<close> and \<open>position(400) = 15\<close>.
\<close>

theorem position_monotone:
  "(50 \<le> d1 \<and> d1 \<le> d2 \<and> d2 \<le> 400 \<longrightarrow> sensor_position d1 \<le> sensor_position d2)
   \<and> sensor_position 50 = 0 \<and> sensor_position 400 = 15"
  by (simp add: sensor_position_floor floor_position_mono
      sensor_position_50 [unfolded sensor_position_floor]
      sensor_position_400 [unfolded sensor_position_floor])

theorem position_monotone_witness:
  "(50 :: u16) \<le> 120 \<and> (120 :: u16) \<le> 300 \<and> (300 :: u16) \<le> 400
   \<and> sensor_position 120 \<le> sensor_position 300"
  using position_monotone [of 120 300] by simp

section \<open>Properties of the pulse encoders\<close>

lemmas WS2812_NS_defs =
  WS2812_T0H_NS_def WS2812_T0L_NS_def WS2812_T1H_NS_def WS2812_T1L_NS_def

lemma replicate_8: "replicate 8 x = [x, x, x, x, x, x, x, x]"
  by (simp add: eval_nat_numeral)

lemma tick_ps:
  "rmt_tick_ps ws2812_clk_div = 25000 \<and> rmt_tick_ps init_ws2812_clk_div_part001 = 12500"
  by (simp add: rmt_tick_ps_def APB_CLK_FREQ_def ws2812_clk_div_def
      init_ws2812_clk_div_part001_def)

lemma items_eval:
  "item_one = \<lparr>level0 = 1, duration0 = 32, level1 = 0, duration1 = 18\<rparr>"
  "item_zero = \<lparr>level0 = 1, duration0 = 16, level1 = 0, duration1 = 34\<rparr>"
  "item_one_part001 = \<lparr>level0 = 1, duration0 = 6, level1 = 0, duration1 = 3\<rparr>"
  "item_zero_part001 = \<lparr>level0 = 1, duration0 = 3, level1 = 0, duration1 = 6\<rparr>"
  by (simp_all add: item_one_def item_zero_def item_one_part001_def item_zero_part001_def
      WS2812_NS_defs)

subsection \<open>The driver's encoder\<close>

lemma length_write_bits: "length (ws2812_write_bits n byte) = n"
  by (induction n) simp_all

lemma nth_write_bits:
  "k < n \<Longrightarrow>
   ws2812_write_bits n byte ! k = (if bit byte (n - 1 - k) then item_one else item_zero)"
proof (induction n arbitrary: k)
  case 0
  then show ?case by simp
next
  case (Suc n)
  show ?case
  proof (cases k)
    case 0
    then show ?thesis by (simp add: and_exp_eq_0_iff_not_bit)
  next
    case (Suc j)
    with Suc.prems have "j < n" by simp
    then have "ws2812_write_bits n byte ! j =
        (if bit byte (n - 1 - j) then item_one else item_zero)"
      by (rule Suc.IH)
    with Suc show ?thesis by simp
  qed
qed

text \<open>
  \<open>ws2812_write_byte\<close> of the driver: eight items, the most significant bit first, a set
  bit as \<open>item_one\<close> and a clear bit as \<open>item_zero\<close>.
\<close>

lemma write_byte_items:
  "length (ws2812_write_byte byte) = 8 \<and>
   (\<forall>k<8. ws2812_write_byte byte ! k =
      (if bit byte (7 - k) then item_one else item_zero))"
  by (simp add: ws2812_write_byte_def length_write_bits nth_write_bits)

text \<open>
  At the 25 ns tick of \<open>clk_div = 2\<close> the driver's items last exactly the nanosecond
  constants, and every pair lasts 1250 ns.
\<close>

lemma item_timing:
  "high_ps ws2812_clk_div item_one = 1000 * WS2812_T1H_NS \<and>
   low_ps ws2812_clk_div item_one = 1000 * WS2812_T1L_NS \<and>
   high_ps ws2812_clk_div item_zero = 1000 * WS2812_T0H_NS \<and>
   low_ps ws2812_clk_div item_zero = 1000 * WS2812_T0L_NS \<and>
   pair_ps ws2812_clk_div item_one = 1250000 \<and>
   pair_ps ws2812_clk_div item_zero = 1250000"
  by (simp add: high_ps_def low_ps_def pair_ps_def items_eval tick_ps WS2812_NS_defs)

lemma write_byte_FF: "ws2812_write_byte 0xFF = replicate 8 item_one"
  by code_simp

lemma write_byte_00: "ws2812_write_byte 0x00 = replicate 8 item_zero"
  by code_simp

subsection \<open>The encoder of the stand-alone variant\<close>

lemma write_loop_part001_FF: "ws2812_write_loop_part001 [0xFF] = replicate 8 item_one_part001"
  by code_simp

lemma write_loop_part001_00: "ws2812_write_loop_part001 [0x00] = replicate 8 item_zero_part001"
  by code_simp

lemma write_loop_part001_32:
  "ws2812_write_loop_part001 [0x32] =
     [item_zero_part001, item_zero_part001, item_one_part001, item_one_part001,
      item_zero_part001, item_zero_part001, item_one_part001, item_zero_part001]"
  by code_simp

lemma item_timing_part001:
  "high_ps init_ws2812_clk_div_part001 item_one_part001 = 75000
   \<and> low_ps init_ws2812_clk_div_part001 item_one_part001 = 37500
   \<and> high_ps init_ws2812_clk_div_part001 item_zero_part001 = 37500
   \<and> low_ps init_ws2812_clk_div_part001 item_zero_part001 = 75000
   \<and> pair_ps init_ws2812_clk_div_part001 item_one_part001 = 112500
   \<and> pair_ps init_ws2812_clk_div_part001 item_zero_part001 = 112500"
  by (simp add: high_ps_def low_ps_def pair_ps_def items_eval tick_ps)

text \<open>
  C3: for every input byte the pulse encoder produces exactly 8 pulse pairs, most
  significant bit first, a set bit as a long-high/short-low pair with the "1" timing
  (about 800 ns high, 450 ns low) and a clear bit as a short-high/long-low pair with the
  "0" timing (about 400 ns high, 850 ns low). The driver's \<open>ws2812_write_byte\<close> does so
  (\<open>write_byte_items\<close>, \<open>item_timing\<close>). The encoder of the stand-alone variant has the
  same shape, but it converts nanoseconds to ticks as \<open>ns / 10 * 8 / 100\<close> for a channel
  set up with \<open>clk_div = 1\<close>: the byte 0xFF gives eight pairs of 6 and 3 ticks, which at
  12.5 ns a tick are 75 ns high and 37.5 ns low, and the byte 0x00 eight pairs of 37.5 ns
  high and 75 ns low.
\<close>

theorem part001_pulse_timing:
  "ws2812_write_part001 True [0xFF]
     = Some (replicate 8 \<lparr>level0 = 1, duration0 = 6, level1 = 0, duration1 = 3\<rparr>)
   \<and> ws2812_write_part001 True [0x00]
     = Some (replicate 8 \<lparr>level0 = 1, duration0 = 3, level1 = 0, duration1 = 6\<rparr>)
   \<and> high_ps init_ws2812_clk_div_part001 item_one_part001 = 75000
   \<and> low_ps init_ws2812_clk_div_part001 item_one_part001 = 37500
   \<and> high_ps init_ws2812_clk_div_part001 item_zero_part001 = 37500
   \<and> low_ps init_ws2812_clk_div_part001 item_zero_part001 = 75000"
proof -
  have ones: "ws2812_write_part001 True [0xFF]
      = Some (replicate 8 \<lparr>level0 = 1, duration0 = 6, level1 = 0, duration1 = 3\<rparr>)"
    unfolding ws2812_write_part001_def write_loop_part001_FF by (simp add: items_eval)
  have zeros: "ws2812_write_part001 True [0x00]
      = Some (replicate 8 \<lparr>level0 = 1, duration0 = 3, level1 = 0, duration1 = 6\<rparr>)"
    unfolding ws2812_write_part001_def write_loop_part001_00 by (simp add: items_eval)
  from ones zeros item_timing_part001 show ?thesis by blast
qed

text \<open>
  C4: pulse durations are the nanosecond constants divided by the tick period of the
  configured clock divider, so that every (high, low) pair lasts the nominal 1250 ns.
  The driver's items do (\<open>item_timing\<close>). In the stand-alone variant every pair of the
  byte 0x32 (a full-intensity channel as \<open>set_pixel\<close> stores it, 255 * 50 / 255), set
  bits and clear bits alike, lasts 9 ticks of 12.5 ns, 112.5 ns in all.
\<close>

theorem part001_bit_period:
  "map (pair_ps init_ws2812_clk_div_part001) (ws2812_write_loop_part001 [0x32])
     = replicate 8 112500"
  unfolding write_loop_part001_32 by (simp add: item_timing_part001 replicate_8)

section \<open>Properties of the strip driver\<close>

text \<open>
  C10: every public strip operation tolerates a null strip handle. \<open>ws2812_set_pixel\<close>,
  \<open>ws2812_set_pixel_rgb\<close>, \<open>ws2812_clear\<close>, \<open>ws2812_set_brightness\<close>, \<open>ws2812_show\<close> and
  \<open>ws2812_free\<close> do nothing (no fault, no write, no transmission, no release) and
  \<open>ws2812_get_pixel\<close> returns black.
\<close>

theorem null_strip_tolerated:
  "ws2812_set_pixel None index rv gv bv = Inr None
   \<and> ws2812_set_pixel_rgb None index color = Inr None
   \<and> ws2812_clear None = Inr None
   \<and> ws2812_set_brightness None level = None
   \<and> ws2812_show malloc_ok None = Inr \<lparr>rmt_written = None, logged = [], strip_after = None\<rparr>
   \<and> ws2812_free None = []
   \<and> ws2812_get_pixel None index = Inr \<lparr>r = 0, g = 0, b = 0\<rparr>"
  by (simp add: ws2812_set_pixel_def ws2812_set_pixel_rgb_def ws2812_clear_def
      ws2812_set_brightness_def ws2812_show_def ws2812_free_def ws2812_get_pixel_def
      black_def)

subsection \<open>Transmit\<close>

lemma replicate_2: "replicate 2 x = [x, x]"
  by (simp add: numeral_2_eq_2)

declare show_loop.simps [simp del]

lemma wire_bytes_Nil: "wire_bytes level [] = []"
  by (simp add: wire_bytes_def)

lemma wire_bytes_Cons:
  "wire_bytes level (p # ps) = scale (g p) level # scale (r p) level # scale (b p) level # wire_bytes level ps"
  by (simp add: wire_bytes_def scale_def)

lemma show_loop_eq:
  assumes len: "count \<le> length ps"
  shows "i \<le> count \<Longrightarrow>
    show_loop ps level count i items =
      Inr (items @ concat (map ws2812_write_byte (wire_bytes level (drop i (take count ps)))))"
proof (induction n \<equiv> "count - i" arbitrary: i items)
  case 0
  then have "i = count" by simp
  then show ?case by (simp add: show_loop.simps wire_bytes_Nil)
next
  case (Suc n)
  then have lt: "i < count" and n: "n = count - Suc i" and le: "Suc i \<le> count" by simp_all
  from lt len have il: "i < length ps" by simp
  from lt len have "i < length (take count ps)" by simp
  then have dr: "drop i (take count ps) = (take count ps ! i) # drop (Suc i) (take count ps)"
    by (rule Cons_nth_drop_Suc [symmetric])
  from lt have nth: "take count ps ! i = ps ! i" by simp
  show ?case
    by (subst show_loop.simps) (simp add: lt il Let_def Suc.hyps(1) [OF n le] dr nth wire_bytes_Cons)
qed

lemma scale_unat: "unat (scale v level) = unat v * unat level div 255"
proof -
  have "unat v < 256" using unsigned_less [of v] by simp
  then have "unat v * unat level \<le> 255 * unat level" by simp
  then have "unat v * unat level div 255 \<le> unat level"
    by (metis div_le_mono nonzero_mult_div_cancel_left zero_neq_numeral)
  moreover have "unat level < 256" using unsigned_less [of level] by simp
  ultimately have "unat v * unat level div 255 < 2 ^ LENGTH(8)" by simp
  then show ?thesis
    unfolding scale_def by (simp add: unat_of_nat take_bit_nat_eq_self)
qed

text \<open>
  On a strip whose pixel block has \<open>pixel_count\<close> entries, \<open>ws2812_show\<close> hands the
  peripheral the encoding of the wire bytes and leaves the strip as it was.
\<close>

lemma show_wf:
  "pixels s = Some ps \<Longrightarrow> length ps = unat (pixel_count s) \<Longrightarrow>
   ws2812_show True (Some s) =
     Inr \<lparr>rmt_written = Some (concat (map ws2812_write_byte (wire_bytes (brightness s) ps))),
          logged = [], strip_after = Some s\<rparr>"
  by (simp add: ws2812_show_def show_loop_eq)

lemma item_bits: "item_bit item_one \<and> \<not> item_bit item_zero"
  by (simp add: item_bit_def items_eval)

lemma items_differ: "item_one \<noteq> item_zero"
  by (simp add: items_eval)

lemma take_bit_Suc_or:
  "take_bit (Suc n) byte = push_bit n (of_bool (bit byte n)) OR take_bit n byte" for byte :: u8
  by (rule bit_eqI) (auto simp: bit_simps less_Suc_eq)

lemma shift_in_push:
  "push_bit n (shift_in acc item) OR w
     = push_bit (Suc n) acc OR (push_bit n (of_bool (item_bit item)) OR w)"
  by (simp add: shift_in_def push_bit_or ac_simps flip: push_bit_add)

lemma decode_write_bits:
  "foldl shift_in acc (ws2812_write_bits n byte) = push_bit n acc OR take_bit n byte"
proof (induction n arbitrary: acc)
  case 0
  then show ?case by simp
next
  case (Suc n)
  let ?item = "if bit byte n then item_one else item_zero"
  have bt: "item_bit ?item = bit byte n" by (simp add: item_bits)
  have "foldl shift_in acc (ws2812_write_bits (Suc n) byte)
      = foldl shift_in (shift_in acc ?item) (ws2812_write_bits n byte)"
    by (simp add: and_exp_eq_0_iff_not_bit)
  also have "\<dots> = push_bit n (shift_in acc ?item) OR take_bit n byte"
    by (rule Suc.IH)
  also have "\<dots> = push_bit (Suc n) acc OR (push_bit n (of_bool (bit byte n)) OR take_bit n byte)"
    by (simp only: shift_in_push bt)
  also have "\<dots> = push_bit (Suc n) acc OR take_bit (Suc n) byte"
    by (simp only: take_bit_Suc_or)
  finally show ?case .
qed

lemma decode_write_byte: "decode_byte (ws2812_write_byte byte) = byte"
  by (simp add: decode_byte_def ws2812_write_byte_def decode_write_bits take_bit_word_eq_self)

lemma length_write_byte: "length (ws2812_write_byte byte) = 8"
  by (simp add: ws2812_write_byte_def length_write_bits)

lemma decode_train_bytes:
  "decode_train (length bytes) (concat (map ws2812_write_byte bytes) @ rest) = bytes"
  by (induction bytes) (simp_all add: length_write_byte decode_write_byte)

lemma decode_train_3:
  "decode_train 3 (ws2812_write_byte x @ ws2812_write_byte y @ ws2812_write_byte z @ rest)
     = [x, y, z]"
proof -
  have "decode_train (Suc (Suc (Suc 0)))
      (ws2812_write_byte x @ ws2812_write_byte y @ ws2812_write_byte z @ rest) = [x, y, z]"
    using decode_train_bytes [of "[x, y, z]" rest] by (simp del: decode_train.simps)
  then show ?thesis by (simp only: numeral_3_eq_3)
qed

lemma length_train: "length (concat (map ws2812_write_byte bytes)) = 8 * length bytes"
  by (induction bytes) (simp_all add: length_write_byte)

lemma length_wire_bytes: "length (wire_bytes level ps) = 3 * length ps"
  by (induction ps) (simp_all add: wire_bytes_Nil wire_bytes_Cons)

lemma write_byte_128:
  "ws2812_write_byte 128
     = [item_one, item_zero, item_zero, item_zero, item_zero, item_zero, item_zero,
        item_zero]"
  by code_simp

lemma show_scaled_grb:
  "(pixels s = Some ps \<and> length ps = unat (pixel_count s) \<longrightarrow>
      ws2812_show True (Some s) =
        Inr \<lparr>rmt_written =
               Some (concat (map ws2812_write_byte (wire_bytes (brightness s) ps))),
             logged = [], strip_after = Some s\<rparr>)
   \<and> unat (scale v level) = unat v * unat level div 255
   \<and> (pixels s = Some ps \<and> length ps = unat (pixel_count s) \<and> 0 < pixel_count s \<longrightarrow>
        ws2812_set_pixel (Some s) 0 255 0 0
          = Inr (Some (s\<lparr>pixels := Some (ps[0 := \<lparr>r = 255, g = 0, b = 0\<rparr>])\<rparr>))
        \<and> ws2812_set_brightness
              (Some (s\<lparr>pixels := Some (ps[0 := \<lparr>r = 255, g = 0, b = 0\<rparr>])\<rparr>)) 128
          = Some (s\<lparr>pixels := Some (ps[0 := \<lparr>r = 255, g = 0, b = 0\<rparr>]), brightness := 128\<rparr>)
        \<and> ws2812_show True
              (Some (s\<lparr>pixels := Some (ps[0 := \<lparr>r = 255, g = 0, b = 0\<rparr>]), brightness := 128\<rparr>))
          = Inr \<lparr>rmt_written =
                   Some (ws2812_write_byte 0 @ ws2812_write_byte 128 @ ws2812_write_byte 0
                         @ concat (map ws2812_write_byte (wire_bytes 128 (tl ps)))),
                 logged = [],
                 strip_after =
                   Some (s\<lparr>pixels := Some (ps[0 := \<lparr>r = 255, g = 0, b = 0\<rparr>]),
                           brightness := 128\<rparr>)\<rparr>)"
proof (intro conjI impI)
  assume "pixels s = Some ps \<and> length ps = unat (pixel_count s)"
  then show "ws2812_show True (Some s) =
        Inr \<lparr>rmt_written =
               Some (concat (map ws2812_write_byte (wire_bytes (brightness s) ps))),
             logged = [], strip_after = Some s\<rparr>"
    by (simp add: show_wf)
next
  show "unat (scale v level) = unat v * unat level div 255" by (rule scale_unat)
next
  assume a: "pixels s = Some ps \<and> length ps = unat (pixel_count s) \<and> 0 < pixel_count s"
  then have pos: "0 < length ps" by (simp add: word_less_nat_alt)
  with a show "ws2812_set_pixel (Some s) 0 255 0 0
          = Inr (Some (s\<lparr>pixels := Some (ps[0 := \<lparr>r = 255, g = 0, b = 0\<rparr>])\<rparr>))"
    by (simp add: ws2812_set_pixel_def)
next
  show "ws2812_set_brightness
              (Some (s\<lparr>pixels := Some (ps[0 := \<lparr>r = 255, g = 0, b = 0\<rparr>])\<rparr>)) 128
          = Some (s\<lparr>pixels := Some (ps[0 := \<lparr>r = 255, g = 0, b = 0\<rparr>]), brightness := 128\<rparr>)"
    by (simp add: ws2812_set_brightness_def)
next
  assume a: "pixels s = Some ps \<and> length ps = unat (pixel_count s) \<and> 0 < pixel_count s"
  then have "0 < length ps" by (simp add: word_less_nat_alt)
  then obtain p rest where ps: "ps = p # rest" by (cases ps) auto
  have sc: "scale 255 128 = 128" "scale 0 128 = 0" by (simp_all add: scale_def)
  from a ps show "ws2812_show True
              (Some (s\<lparr>pixels := Some (ps[0 := \<lparr>r = 255, g = 0, b = 0\<rparr>]), brightness := 128\<rparr>))
          = Inr \<lparr>rmt_written =
                   Some (ws2812_write_byte 0 @ ws2812_write_byte 128 @ ws2812_write_byte 0
                         @ concat (map ws2812_write_byte (wire_bytes 128 (tl ps)))),
                 logged = [],
                 strip_after =
                   Some (s\<lparr>pixels := Some (ps[0 := \<lparr>r = 255, g = 0, b = 0\<rparr>]),
                           brightness := 128\<rparr>)\<rparr>"
    by (subst show_wf [where ps = "\<lparr>r = 255, g = 0, b = 0\<rparr> # rest"])
       (simp_all add: wire_bytes_Cons sc)
qed

text \<open>
  C5: \<open>ws2812_show\<close> processes the pixels in index order, scales each channel by
  brightness/255 with integer truncation and emits the three channels of each pixel in
  green, red, blue order; after setting pixel 0 to (255,0,0) with brightness 128 the
  bytes transmitted for pixel 0 are (0,128,0). The pulse train is the encoding of these
  bytes, eight pairs a byte with the most significant bit first, \<open>item_one\<close> for a set
  bit and the different \<open>item_zero\<close> for a clear one, and it reads back as these bytes.
\<close>

theorem show_transmits_grb:
  "(pixels s = Some ps \<and> length ps = unat (pixel_count s) \<longrightarrow>
      ws2812_show True (Some s) =
        Inr \<lparr>rmt_written =
               Some (concat (map ws2812_write_byte (wire_bytes (brightness s) ps))),
             logged = [], strip_after = Some s\<rparr>)
   \<and> unat (scale v level) = unat v * unat level div 255
   \<and> (pixels s = Some ps \<and> length ps = unat (pixel_count s) \<and> 0 < pixel_count s \<longrightarrow>
        ws2812_set_pixel (Some s) 0 255 0 0
          = Inr (Some (s\<lparr>pixels := Some (ps[0 := \<lparr>r = 255, g = 0, b = 0\<rparr>])\<rparr>))
        \<and> ws2812_set_brightness
              (Some (s\<lparr>pixels := Some (ps[0 := \<lparr>r = 255, g = 0, b = 0\<rparr>])\<rparr>)) 128
          = Some (s\<lparr>pixels := Some (ps[0 := \<lparr>r = 255, g = 0, b = 0\<rparr>]), brightness := 128\<rparr>)
        \<and> ws2812_show True
              (Some (s\<lparr>pixels := Some (ps[0 := \<lparr>r = 255, g = 0, b = 0\<rparr>]), brightness := 128\<rparr>))
          = Inr \<lparr>rmt_written =
                   Some (ws2812_write_byte 0 @ ws2812_write_byte 128 @ ws2812_write_byte 0
                         @ concat (map ws2812_write_byte (wire_bytes 128 (tl ps)))),
                 logged = [],
                 strip_after =
                   Some (s\<lparr>pixels := Some (ps[0 := \<lparr>r = 255, g = 0, b = 0\<rparr>]),
                           brightness := 128\<rparr>)\<rparr>)
   \<and> length (ws2812_write_byte byte) = 8
   \<and> (\<forall>k<8. ws2812_write_byte byte ! k
          = (if bit byte (7 - k) then item_one else item_zero))
   \<and> item_one = \<lparr>level0 = 1, duration0 = 32, level1 = 0, duration1 = 18\<rparr>
   \<and> item_zero = \<lparr>level0 = 1, duration0 = 16, level1 = 0, duration1 = 34\<rparr>
   \<and> item_one \<noteq> item_zero
   \<and> decode_byte (ws2812_write_byte byte) = byte
   \<and> wire_bytes level [] = []
   \<and> wire_bytes level (p # rest)
        = scale (g p) level # scale (r p) level # scale (b p) level # wire_bytes level rest
   \<and> (pixels s = Some ps \<and> length ps = unat (pixel_count s) \<longrightarrow>
        (\<exists>items. ws2812_show True (Some s)
                   = Inr \<lparr>rmt_written = Some items, logged = [], strip_after = Some s\<rparr>
                 \<and> length items = 24 * length ps
                 \<and> decode_train (3 * length ps) items = wire_bytes (brightness s) ps))
   \<and> (pixels s = Some ps \<and> length ps = unat (pixel_count s) \<and> 0 < pixel_count s \<longrightarrow>
        (\<exists>items. ws2812_show True
                     (Some (s\<lparr>pixels := Some (ps[0 := \<lparr>r = 255, g = 0, b = 0\<rparr>]),
                             brightness := 128\<rparr>))
                   = Inr \<lparr>rmt_written = Some items, logged = [],
                          strip_after =
                            Some (s\<lparr>pixels := Some (ps[0 := \<lparr>r = 255, g = 0, b = 0\<rparr>]),
                                    brightness := 128\<rparr>)\<rparr>
                 \<and> decode_train 3 items = [0, 128, 0]))"
proof -
  have train: "\<exists>items. ws2812_show True (Some s)
                   = Inr \<lparr>rmt_written = Some items, logged = [], strip_after = Some s\<rparr>
                 \<and> length items = 24 * length ps
                 \<and> decode_train (3 * length ps) items = wire_bytes (brightness s) ps"
    if "pixels s = Some ps \<and> length ps = unat (pixel_count s)"
  proof -
    let ?bytes = "wire_bytes (brightness s) ps"
    let ?items = "concat (map ws2812_write_byte ?bytes)"
    have "ws2812_show True (Some s)
        = Inr \<lparr>rmt_written = Some ?items, logged = [], strip_after = Some s\<rparr>"
      using that by (simp add: show_wf)
    moreover have "length ?items = 24 * length ps"
      by (simp add: length_train length_wire_bytes)
    moreover have "decode_train (3 * length ps) ?items = ?bytes"
      using decode_train_bytes [of ?bytes "[]"] by (simp add: length_wire_bytes)
    ultimately show ?thesis by blast
  qed
  have first: "\<exists>items. ws2812_show True
                     (Some (s\<lparr>pixels := Some (ps[0 := \<lparr>r = 255, g = 0, b = 0\<rparr>]),
                             brightness := 128\<rparr>))
                   = Inr \<lparr>rmt_written = Some items, logged = [],
                          strip_after =
                            Some (s\<lparr>pixels := Some (ps[0 := \<lparr>r = 255, g = 0, b = 0\<rparr>]),
                                    brightness := 128\<rparr>)\<rparr>
                 \<and> decode_train 3 items = [0, 128, 0]"
    if a: "pixels s = Some ps \<and> length ps = unat (pixel_count s) \<and> 0 < pixel_count s"
  proof -
    let ?tail = "concat (map ws2812_write_byte (wire_bytes 128 (tl ps)))"
    let ?items = "ws2812_write_byte 0 @ ws2812_write_byte 128 @ ws2812_write_byte 0 @ ?tail"
    from show_scaled_grb [of s ps] a have "ws2812_show True
          (Some (s\<lparr>pixels := Some (ps[0 := \<lparr>r = 255, g = 0, b = 0\<rparr>]), brightness := 128\<rparr>))
        = Inr \<lparr>rmt_written = Some ?items, logged = [],
               strip_after =
                 Some (s\<lparr>pixels := Some (ps[0 := \<lparr>r = 255, g = 0, b = 0\<rparr>]),
                         brightness := 128\<rparr>)\<rparr>"
      by blast
    moreover have "decode_train 3 ?items = [0, 128, 0]"
      by (rule decode_train_3)
    ultimately show ?thesis by blast
  qed
  have enc: "length (ws2812_write_byte byte) = 8"
      "\<forall>k<8. ws2812_write_byte byte ! k = (if bit byte (7 - k) then item_one else item_zero)"
    using write_byte_items [of byte] by simp_all
  from show_scaled_grb [of s ps v level] enc items_eval(1) items_eval(2) items_differ
    decode_write_byte [of byte] wire_bytes_Nil [of level] wire_bytes_Cons [of level p rest]
    train first
  show ?thesis by blast
qed

theorem show_transmits_grb_witness:
  "ws2812_init True True 2 10 0
     = Some \<lparr>channel = 0, gpio = 10, pixel_count = 2,
             pixels = Some [\<lparr>r = 0, g = 0, b = 0\<rparr>, \<lparr>r = 0, g = 0, b = 0\<rparr>], brightness = 255\<rparr>
   \<and> ws2812_show True
       (Some \<lparr>channel = 0, gpio = 10, pixel_count = 2,
              pixels = Some [\<lparr>r = 255, g = 0, b = 0\<rparr>, \<lparr>r = 0, g = 0, b = 0\<rparr>],
              brightness = 128\<rparr>)
     = Inr \<lparr>rmt_written =
              Some (ws2812_write_byte 0 @ ws2812_write_byte 128 @ ws2812_write_byte 0
                    @ ws2812_write_byte 0 @ ws2812_write_byte 0 @ ws2812_write_byte 0),
            logged = [],
            strip_after =
              Some \<lparr>channel = 0, gpio = 10, pixel_count = 2,
                     pixels = Some [\<lparr>r = 255, g = 0, b = 0\<rparr>, \<lparr>r = 0, g = 0, b = 0\<rparr>],
                     brightness = 128\<rparr>\<rparr>
   \<and> decode_train 3
        (ws2812_write_byte 0 @ ws2812_write_byte 128 @ ws2812_write_byte 0
         @ ws2812_write_byte 0 @ ws2812_write_byte 0 @ ws2812_write_byte 0)
       = [0, 128, 0]
   \<and> ws2812_write_byte 128
       = [item_one, item_zero, item_zero, item_zero, item_zero, item_zero, item_zero,
          item_zero]"
proof -
  have two: "unat (2 :: u16) = 2" by simp
  have init: "ws2812_init True True 2 10 0
     = Some \<lparr>channel = 0, gpio = 10, pixel_count = 2,
             pixels = Some [\<lparr>r = 0, g = 0, b = 0\<rparr>, \<lparr>r = 0, g = 0, b = 0\<rparr>], brightness = 255\<rparr>"
    unfolding ws2812_init_def two replicate_2 black_def by simp
  have wire: "wire_bytes 128 [\<lparr>r = 0, g = 0, b = 0\<rparr>] = [0, 0, 0]"
    by (simp add: wire_bytes_def)
  have sent: "ws2812_show True
       (Some \<lparr>channel = 0, gpio = 10, pixel_count = 2,
              pixels = Some [\<lparr>r = 255, g = 0, b = 0\<rparr>, \<lparr>r = 0, g = 0, b = 0\<rparr>],
              brightness = 128\<rparr>)
     = Inr \<lparr>rmt_written =
              Some (ws2812_write_byte 0 @ ws2812_write_byte 128 @ ws2812_write_byte 0
                    @ ws2812_write_byte 0 @ ws2812_write_byte 0 @ ws2812_write_byte 0),
            logged = [],
            strip_after =
              Some \<lparr>channel = 0, gpio = 10, pixel_count = 2,
                     pixels = Some [\<lparr>r = 255, g = 0, b = 0\<rparr>, \<lparr>r = 0, g = 0, b = 0\<rparr>],
                     brightness = 128\<rparr>\<rparr>"
    using show_transmits_grb
      [of "\<lparr>channel = 0, gpio = 10, pixel_count = 2,
            pixels = Some [\<lparr>r = 0, g = 0, b = 0\<rparr>, \<lparr>r = 0, g = 0, b = 0\<rparr>],
            brightness = 255\<rparr>"
          "[\<lparr>r = 0, g = 0, b = 0\<rparr>, \<lparr>r = 0, g = 0, b = 0\<rparr>]"]
    by (simp add: wire)
  have decoded: "decode_train 3
        (ws2812_write_byte 0 @ ws2812_write_byte 128 @ ws2812_write_byte 0
         @ ws2812_write_byte 0 @ ws2812_write_byte 0 @ ws2812_write_byte 0)
       = [0, 128, 0]"
    by (rule decode_train_3)
  from init sent decoded write_byte_128 show ?thesis by blast
qed

text \<open>
  C9, as stated: when the allocation of the pulse train fails, transmit aborts without
  writing to the LEDs and reports the failure to the caller. The abort is as claimed.
  The report is not: \<open>ws2812_show\<close> is \<open>void\<close> and writes a line to the log only, so a
  caller is handed the same after a failed allocation as after a transmission.
\<close>

theorem alloc_failure_unreported:
  "ws2812_show False
       (Some \<lparr>channel = 0, gpio = 10, pixel_count = 1,
              pixels = Some [\<lparr>r = 255, g = 0, b = 0\<rparr>], brightness = 128\<rparr>)
     = Inr \<lparr>rmt_written = None, logged = [''Failed to allocate RMT items''],
            strip_after =
              Some \<lparr>channel = 0, gpio = 10, pixel_count = 1,
                     pixels = Some [\<lparr>r = 255, g = 0, b = 0\<rparr>], brightness = 128\<rparr>\<rparr>
   \<and> returned_to_caller (ws2812_show False
       (Some \<lparr>channel = 0, gpio = 10, pixel_count = 1,
              pixels = Some [\<lparr>r = 255, g = 0, b = 0\<rparr>], brightness = 128\<rparr>))
     = returned_to_caller (ws2812_show True
       (Some \<lparr>channel = 0, gpio = 10, pixel_count = 1,
              pixels = Some [\<lparr>r = 255, g = 0, b = 0\<rparr>], brightness = 128\<rparr>))"
proof -
  have failed: "ws2812_show False
       (Some \<lparr>channel = 0, gpio = 10, pixel_count = 1,
              pixels = Some [\<lparr>r = 255, g = 0, b = 0\<rparr>], brightness = 128\<rparr>)
     = Inr \<lparr>rmt_written = None, logged = [''Failed to allocate RMT items''],
            strip_after =
              Some \<lparr>channel = 0, gpio = 10, pixel_count = 1,
                     pixels = Some [\<lparr>r = 255, g = 0, b = 0\<rparr>], brightness = 128\<rparr>\<rparr>"
    by (simp add: ws2812_show_def)
  have sent: "returned_to_caller (ws2812_show True
       (Some \<lparr>channel = 0, gpio = 10, pixel_count = 1,
              pixels = Some [\<lparr>r = 255, g = 0, b = 0\<rparr>], brightness = 128\<rparr>))
     = Inr (Some \<lparr>channel = 0, gpio = 10, pixel_count = 1,
              pixels = Some [\<lparr>r = 255, g = 0, b = 0\<rparr>], brightness = 128\<rparr>)"
    by (simp add: show_wf returned_to_caller_def)
  show ?thesis
    unfolding sent unfolding failed by (simp add: returned_to_caller_def)
qed

text \<open>
  C9, amended: when the allocation of the pulse train fails, transmit aborts without
  passing any data to the peripheral and without touching the strip; the driver writes
  one error line to the log and the stand-alone variant returns silently. Nothing is
  reported to the caller.
\<close>

theorem alloc_failure_aborts:
  "ws2812_show False (Some (s\<lparr>pixels := Some ps\<rparr>))
     = Inr \<lparr>rmt_written = None, logged = [''Failed to allocate RMT items''],
            strip_after = Some (s\<lparr>pixels := Some ps\<rparr>)\<rparr>
   \<and> returned_to_caller (ws2812_show False strip) = Inr strip
   \<and> ws2812_write_part001 False data = None
   \<and> show_display_part001 False leds = None"
  by (simp add: ws2812_show_def returned_to_caller_def ws2812_write_part001_def
      show_display_part001_def split: option.splits)

section \<open>Properties of the coordinate mapper\<close>

lemma get_index_even_rows:
  "0 \<le> x \<Longrightarrow> x < 16 \<Longrightarrow> 0 \<le> y \<Longrightarrow> y < 16 \<Longrightarrow> even y
   \<Longrightarrow> get_index x y = serpentine_index x y"
  by (simp add: get_index_def serpentine_index_def MATRIX_WIDTH_def MATRIX_HEIGHT_def)

lemma get_index_valid:
  "0 \<le> x \<Longrightarrow> x < 16 \<Longrightarrow> 0 \<le> y \<Longrightarrow> y < 16
   \<Longrightarrow> 0 \<le> get_index x y \<and> get_index x y < 256"
  by (simp add: get_index_def MATRIX_WIDTH_def MATRIX_HEIGHT_def)

lemma get_index_invalid:
  "\<not> (0 \<le> x \<and> x < 16 \<and> 0 \<le> y \<and> y < 16) \<Longrightarrow> get_index x y = - 1"
  by (auto simp add: get_index_def MATRIX_WIDTH_def MATRIX_HEIGHT_def)

lemma set_pixel_outside:
  "\<not> (0 \<le> x \<and> x < 16 \<and> 0 \<le> y \<and> y < 16) \<Longrightarrow> set_pixel strip x y rv gv bv = Inr strip"
  by (simp add: set_pixel_def get_index_invalid)

text \<open>
  C6: for valid coordinates \<open>get_index\<close> follows the serpentine rule, even rows mapping
  column \<open>x\<close> to \<open>y * 16 + (15 - x)\<close> and odd rows to \<open>y * 16 + x\<close>, and returns a sentinel
  outside the grid. The sentinel -1 and the even rows are as claimed
  (\<open>get_index_invalid\<close>, \<open>get_index_valid\<close>, \<open>get_index_even_rows\<close>). On odd rows the
  main program returns the reversed index as well: for column 3 of row 1 it gives 28
  where the rule gives 19. The stand-alone variant reverses the odd rows instead of the
  even ones: for column 3 of row 0 it gives 3 where the rule gives 12.
\<close>

theorem get_index_odd_row:
  "get_index 3 1 = 28 \<and> serpentine_index 3 1 = 19
   \<and> get_index_part001 3 0 = 3 \<and> serpentine_index 3 0 = 12"
  by (simp add: get_index_def serpentine_index_def get_index_part001_def
      MATRIX_WIDTH_def MATRIX_HEIGHT_def)

section \<open>Properties of the distance sensor reader\<close>

lemma sim_inv_init: "sim_inv (init_tof_sensor init_ok)"
  by (simp add: sim_inv_def init_tof_sensor_def)

lemma simulate_up:
  assumes "sim_inv s" "dir s = 1"
  shows "uint (fst (simulate s)) = uint (sim_dist s) + 5
         \<and> 95 \<le> fst (simulate s) \<and> fst (simulate s) \<le> 355 \<and> sim_inv (snd (simulate s))
         \<and> sim_dist (snd (simulate s)) = fst (simulate s)
         \<and> dir (snd (simulate s)) = (if 350 < fst (simulate s) then - 1 else 1)
         \<and> \<not> fst (simulate s) < 100"
proof -
  from assms have b: "95 \<le> sim_dist s" "sim_dist s \<le> 350"
    by (auto simp: sim_inv_def not_less split: if_splits)
  then have x: "95 \<le> uint (sim_dist s)" "uint (sim_dist s) \<le> 350"
    by (simp_all add: word_le_def)
  then have u: "uint (sim_dist s + 5) = uint (sim_dist s) + 5"
    by (simp add: uint_word_ariths)
  from x have r: "95 \<le> sim_dist s + 5" "sim_dist s + 5 \<le> 355" "\<not> sim_dist s + 5 < 100"
    by (simp_all add: word_le_def word_less_def u)
  show ?thesis using assms u r
    by (simp add: simulate_def Let_def sim_inv_def)
qed

lemma simulate_down:
  assumes "sim_inv s" "dir s = - 1"
  shows "uint (fst (simulate s)) = uint (sim_dist s) - 5
         \<and> 95 \<le> fst (simulate s) \<and> fst (simulate s) \<le> 355 \<and> sim_inv (snd (simulate s))
         \<and> sim_dist (snd (simulate s)) = fst (simulate s)
         \<and> dir (snd (simulate s)) = (if fst (simulate s) < 100 then 1 else - 1)
         \<and> \<not> 350 < fst (simulate s)"
proof -
  from assms have b: "100 \<le> sim_dist s" "sim_dist s \<le> 355"
    by (auto simp: sim_inv_def not_less split: if_splits)
  then have x: "100 \<le> uint (sim_dist s)" "uint (sim_dist s) \<le> 355"
    by (simp_all add: word_le_def)
  then have u: "uint (sim_dist s - 5) = uint (sim_dist s) - 5"
    by (simp add: uint_word_ariths)
  from x have r: "95 \<le> sim_dist s - 5" "sim_dist s - 5 \<le> 355" "\<not> 350 < sim_dist s - 5"
    by (simp_all add: word_le_def word_less_def u)
  show ?thesis using assms u r
    by (simp add: simulate_def Let_def sim_inv_def)
qed


lemma simulate_step:
  assumes "sim_inv s"
  shows "uint (fst (simulate s)) = uint (sim_dist s) + dir s * 5
         \<and> 95 \<le> fst (simulate s) \<and> fst (simulate s) \<le> 355
         \<and> sim_inv (snd (simulate s))
         \<and> sim_dist (snd (simulate s)) = fst (simulate s)
         \<and> dir (snd (simulate s)) =
             (if fst (simulate s) < 100 then 1 else if 350 < fst (simulate s) then - 1 else dir s)"
proof -
  from assms consider "dir s = 1" | "dir s = - 1" by (auto simp: sim_inv_def)
  then show ?thesis
  proof cases
    case 1
    from simulate_up [OF assms 1] 1 show ?thesis by simp
  next
    case 2
    from simulate_down [OF assms 2] 2 show ?thesis by simp
  qed
qed

lemma simulate_flags:
  "sensor_initialized (snd (simulate s)) = sensor_initialized s
   \<and> tof_sensor (snd (simulate s)) = tof_sensor s"
  by (simp add: simulate_def Let_def)

lemma sim_inv_reading_count: "sim_inv (s\<lparr>reading_count := n\<rparr>) = sim_inv s"
  by (simp add: sim_inv_def)

lemma read_flags:
  "sensor_initialized (snd (read_tof_sensor hw s)) = sensor_initialized s
   \<and> tof_sensor (snd (read_tof_sensor hw s)) = tof_sensor s"
  by (simp add: read_tof_sensor_def simulate_flags Let_def split: option.splits)

lemma read_success:
  "sensor_initialized s \<Longrightarrow> tof_sensor s \<Longrightarrow>
   read_tof_sensor (Some raw) s =
     (if raw < 50 then 50 else if 400 < raw then 400 else raw,
      s\<lparr>reading_count := reading_count s + 1\<rparr>)"
  by (simp add: read_tof_sensor_def Let_def)

lemma read_fallback:
  "\<not> (sensor_initialized s \<and> tof_sensor s) \<or> hw = None \<Longrightarrow>
   read_tof_sensor hw s =
     simulate (if sensor_initialized s \<and> tof_sensor s
               then s\<lparr>reading_count := reading_count s + 1\<rparr> else s)"
  by (auto simp add: read_tof_sensor_def)

lemma read_sim_inv: "sim_inv s \<Longrightarrow> sim_inv (snd (read_tof_sensor hw s))"
  by (cases hw; cases "sensor_initialized s \<and> tof_sensor s")
     (simp_all add: read_success read_fallback simulate_step sim_inv_reading_count
        del: de_Morgan_conj)

lemma read_fallback_step:
  assumes "sim_inv s" "\<not> (sensor_initialized s \<and> tof_sensor s) \<or> hw = None"
  shows "uint (fst (read_tof_sensor hw s)) = uint (sim_dist s) + dir s * 5
         \<and> 95 \<le> fst (read_tof_sensor hw s) \<and> fst (read_tof_sensor hw s) \<le> 355
         \<and> sim_dist (snd (read_tof_sensor hw s)) = fst (read_tof_sensor hw s)
         \<and> dir (snd (read_tof_sensor hw s)) =
             (if fst (read_tof_sensor hw s) < 100 then 1
              else if 350 < fst (read_tof_sensor hw s) then - 1 else dir s)"
proof (cases "sensor_initialized s \<and> tof_sensor s")
  case True
  from assms(1) have "sim_inv (s\<lparr>reading_count := reading_count s + 1\<rparr>)"
    by (simp add: sim_inv_reading_count)
  from simulate_step [OF this] True show ?thesis
    by (simp add: read_fallback [OF assms(2)])
next
  case False
  from simulate_step [OF assms(1)] False show ?thesis
    by (simp add: read_fallback [OF assms(2)] del: de_Morgan_conj)
qed

lemma read_all_fallback:
  "sim_inv s \<Longrightarrow> k < length hws \<Longrightarrow>
   \<not> (sensor_initialized s \<and> tof_sensor s) \<or> hws ! k = None \<Longrightarrow>
   95 \<le> read_all hws s ! k \<and> read_all hws s ! k \<le> 355"
proof (induction hws arbitrary: s k)
  case Nil
  then show ?case by simp
next
  case (Cons hw hws)
  show ?case
  proof (cases k)
    case 0
    with Cons.prems read_fallback_step [of s hw] show ?thesis
      by (simp add: split_beta)
  next
    case (Suc j)
    have inv: "sim_inv (snd (read_tof_sensor hw s))"
      using Cons.prems(1) by (rule read_sim_inv)
    from Suc Cons.prems have j: "j < length hws" by simp
    from Suc Cons.prems have
      "\<not> (sensor_initialized (snd (read_tof_sensor hw s)) \<and> tof_sensor (snd (read_tof_sensor hw s)))
       \<or> hws ! j = None"
      by (simp add: read_flags)
    from Cons.IH [OF inv j this] Suc show ?thesis
      by (simp add: split_beta)
  qed
qed

text \<open>
  C7, as stated: every value of the synthetic fallback sequence lies within [100,350].
  The sequence starts at 200 and climbs in steps of 5; the direction is reversed only
  after a value above 350 has been computed, and that value is returned. With no sensor
  attached the 31st reading is 355.
\<close>

theorem fallback_overshoot:
  "read_all (replicate 31 None) (init_tof_sensor False) ! 30 = 355 \<and> (350 :: u16) < 355"
proof -
  have "read_all (replicate 31 None) (init_tof_sensor False) ! 30 = 355"
    by code_simp
  then show ?thesis by simp
qed

text \<open>
  C7, amended: whenever the hardware read fails (sensor absent or read error),
  \<open>read_tof_sensor\<close> does not propagate the error: it returns the next value of a
  deterministic synthetic triangle wave that moves in steps of 5, turns back after
  passing 350 on the way up and after passing 100 on the way down, so that every value
  of the fallback sequence lies within [95,355]; on hardware success it returns the raw
  reading clamped into [50,400].
\<close>

theorem fallback_triangle_wave:
  "(sensor_initialized s \<and> tof_sensor s \<longrightarrow>
      fst (read_tof_sensor (Some raw) s)
        = (if raw < 50 then 50 else if 400 < raw then 400 else raw)
      \<and> 50 \<le> fst (read_tof_sensor (Some raw) s)
      \<and> fst (read_tof_sensor (Some raw) s) \<le> 400)
   \<and> (k < length hws \<and> (\<not> init_ok \<or> hws ! k = None) \<longrightarrow>
        95 \<le> read_all hws (init_tof_sensor init_ok) ! k
        \<and> read_all hws (init_tof_sensor init_ok) ! k \<le> 355)
   \<and> sim_inv (init_tof_sensor init_ok)
   \<and> (sim_inv s \<longrightarrow> sim_inv (snd (read_tof_sensor hw s)))
   \<and> (sim_inv s \<and> (\<not> (sensor_initialized s \<and> tof_sensor s) \<or> hw = None) \<longrightarrow>
        uint (fst (read_tof_sensor hw s)) = uint (sim_dist s) + dir s * 5
        \<and> sim_dist (snd (read_tof_sensor hw s)) = fst (read_tof_sensor hw s)
        \<and> dir (snd (read_tof_sensor hw s)) =
            (if fst (read_tof_sensor hw s) < 100 then 1
             else if 350 < fst (read_tof_sensor hw s) then - 1 else dir s))"
proof (intro conjI impI)
  assume a: "sensor_initialized s \<and> tof_sensor s"
  then show "fst (read_tof_sensor (Some raw) s)
      = (if raw < 50 then 50 else if 400 < raw then 400 else raw)"
    by (simp add: read_success)
  from a show "50 \<le> fst (read_tof_sensor (Some raw) s)"
    by (simp add: read_success not_less)
  from a show "fst (read_tof_sensor (Some raw) s) \<le> 400"
    by (simp add: read_success not_less)
next
  assume a: "k < length hws \<and> (\<not> init_ok \<or> hws ! k = None)"
  then have "\<not> (sensor_initialized (init_tof_sensor init_ok) \<and> tof_sensor (init_tof_sensor init_ok))
      \<or> hws ! k = None"
    by (auto simp: init_tof_sensor_def)
  with a sim_inv_init have r:
    "95 \<le> read_all hws (init_tof_sensor init_ok) ! k
     \<and> read_all hws (init_tof_sensor init_ok) ! k \<le> 355"
    by (intro read_all_fallback) simp_all
  from r show "95 \<le> read_all hws (init_tof_sensor init_ok) ! k" ..
  from r show "read_all hws (init_tof_sensor init_ok) ! k \<le> 355" ..
next
  show "sim_inv (init_tof_sensor init_ok)" by (rule sim_inv_init)
next
  assume "sim_inv s"
  then show "sim_inv (snd (read_tof_sensor hw s))" by (rule read_sim_inv)
next
  assume a: "sim_inv s \<and> (\<not> (sensor_initialized s \<and> tof_sensor s) \<or> hw = None)"
  then have st: "uint (fst (read_tof_sensor hw s)) = uint (sim_dist s) + dir s * 5
         \<and> 95 \<le> fst (read_tof_sensor hw s) \<and> fst (read_tof_sensor hw s) \<le> 355
         \<and> sim_dist (snd (read_tof_sensor hw s)) = fst (read_tof_sensor hw s)
         \<and> dir (snd (read_tof_sensor hw s)) =
             (if fst (read_tof_sensor hw s) < 100 then 1
              else if 350 < fst (read_tof_sensor hw s) then - 1 else dir s)"
    by (intro read_fallback_step) simp_all
  from st show "uint (fst (read_tof_sensor hw s)) = uint (sim_dist s) + dir s * 5" by blast
  from st show "sim_dist (snd (read_tof_sensor hw s)) = fst (read_tof_sensor hw s)" by blast
  from st show "dir (snd (read_tof_sensor hw s)) =
            (if fst (read_tof_sensor hw s) < 100 then 1
             else if 350 < fst (read_tof_sensor hw s) then - 1 else dir s)" by blast
qed

theorem fallback_triangle_wave_witness:
  "sensor_initialized (init_tof_sensor True) \<and> tof_sensor (init_tof_sensor True)
   \<and> fst (read_tof_sensor (Some 500) (init_tof_sensor True)) = 400
   \<and> (1 :: nat) < length [None, None :: u16 option]
   \<and> 95 \<le> read_all [None, None] (init_tof_sensor False) ! 1
   \<and> read_all [None, None] (init_tof_sensor False) ! 1 \<le> 355
   \<and> sim_inv (init_tof_sensor True)
   \<and> uint (fst (read_tof_sensor None (init_tof_sensor True))) = 205"
  using fallback_triangle_wave
    [where s = "init_tof_sensor True" and raw = 500 and k = 1 and hws = "[None, None]"
       and init_ok = False and hw = None]
    sim_inv_init [of True]
  by (simp add: init_tof_sensor_def)

section \<open>Properties of the selection state machine\<close>

lemma menu_out:
  "\<not> in_selection_range d \<Longrightarrow>
   menu_case pos now_us (m\<lparr>sensor_distance := d\<rparr>)
     = m\<lparr>sensor_distance := d, menu_selection := - 1, last_stable_selection := - 1,
         selection_start_time := 0\<rparr>"
  by (simp add: menu_case_def)

lemma menu_restart:
  "in_selection_range d \<Longrightarrow> quadrant pos \<noteq> last_stable_selection m \<Longrightarrow>
   menu_case pos now_us (m\<lparr>sensor_distance := d\<rparr>)
     = m\<lparr>sensor_distance := d, last_stable_selection := quadrant pos,
         selection_start_time := timer_ms now_us, menu_selection := quadrant pos\<rparr>"
  by (simp add: menu_case_def Let_def)

lemma menu_hold:
  "in_selection_range d \<Longrightarrow> quadrant pos = last_stable_selection m \<Longrightarrow>
   timer_ms now_us - selection_start_time m < SELECTION_HOLD_TIME \<Longrightarrow>
   menu_case pos now_us (m\<lparr>sensor_distance := d\<rparr>) = m\<lparr>sensor_distance := d\<rparr>"
  by (simp add: menu_case_def Let_def not_le [symmetric])

lemma menu_confirm:
  "in_selection_range d \<Longrightarrow> quadrant pos = last_stable_selection m \<Longrightarrow>
   SELECTION_HOLD_TIME \<le> timer_ms now_us - selection_start_time m \<Longrightarrow>
   menu_case pos now_us (m\<lparr>sensor_distance := d\<rparr>)
     = m\<lparr>sensor_distance := d,
         current_mode := start_game (menu_selection m) (current_mode m),
         menu_selection := - 1, last_stable_selection := - 1, selection_start_time := 0\<rparr>"
  by (simp add: menu_case_def Let_def)

lemma menu_run_stopped: "current_mode m \<noteq> MENU \<Longrightarrow> menu_run ticks m = m"
  by (cases ticks) auto

lemma menu_run_append: "menu_run (xs @ ys) m = menu_run ys (menu_run xs m)"
proof (induction xs arbitrary: m)
  case Nil
  then show ?case by simp
next
  case (Cons t xs)
  obtain d pos now_us where t: "t = (d, pos, now_us)" by (cases t) auto
  show ?case
  proof (cases "current_mode m = MENU")
    case True
    with t Cons.IH show ?thesis by simp
  next
    case False
    with t show ?thesis by (simp add: menu_run_stopped)
  qed
qed

lemma run_hold:
  "candidate q t0 m \<Longrightarrow> list_all (holding q t0) pre \<Longrightarrow> candidate q t0 (menu_run pre m)"
proof (induction pre arbitrary: m)
  case Nil
  then show ?case by simp
next
  case (Cons t pre)
  obtain d pos now_us where t: "t = (d, pos, now_us)" by (cases t) auto
  from Cons.prems t have h: "in_selection_range d" "quadrant pos = last_stable_selection m"
      "timer_ms now_us - selection_start_time m < SELECTION_HOLD_TIME"
    by (simp_all add: holding_def candidate_def)
  from Cons.prems have "candidate q t0 (m\<lparr>sensor_distance := d\<rparr>)"
    by (simp add: candidate_def)
  moreover from Cons.prems have "list_all (holding q t0) pre" by simp
  ultimately have "candidate q t0 (menu_run pre (m\<lparr>sensor_distance := d\<rparr>))"
    by (rule Cons.IH)
  with Cons.prems t show ?case
    by (simp add: menu_hold [OF h] candidate_def)
qed

lemma quadrant_range: "0 \<le> pos \<Longrightarrow> 0 \<le> quadrant pos \<and> quadrant pos \<le> 3"
  by (simp add: quadrant_def Let_def c_div_def pos_imp_zdiv_nonneg_iff sgn_if)

lemma start_game_leaves: "0 \<le> q \<Longrightarrow> q \<le> 3 \<Longrightarrow> start_game q mode \<noteq> MENU"
  by (simp add: start_game_def)

lemma uint_word_of_int_u32: "0 \<le> k \<Longrightarrow> k < 2 ^ 32 \<Longrightarrow> uint (word_of_int k :: u32) = k"
  by (simp add: uint_word_of_int take_bit_int_eq_self)

lemma timer_elapsed:
  assumes "0 \<le> t0" "t0 \<le> t" "t div 1000 - t0 div 1000 < 2 ^ 32"
  shows "uint (timer_ms t - timer_ms t0) = t div 1000 - t0 div 1000"
proof -
  from assms have nn: "0 \<le> t" by simp
  have le: "0 \<le> t div 1000 - t0 div 1000"
    using zdiv_mono1 [of t0 t 1000] assms(2) by simp
  have "timer_ms t - timer_ms t0 = word_of_int (t div 1000 - t0 div 1000)"
    using assms(1) nn by (simp add: timer_ms_def c_div_nonneg)
  with uint_word_of_int_u32 [OF le assms(3)] show ?thesis by simp
qed


lemma game_task_menu_eq:
  "snd (game_task_menu hw1 hw2 now_us (s, m))
     = menu_case (if in_selection_range (fst (read_tof_sensor hw1 s))
                  then fst (get_sensor_position hw2 (snd (read_tof_sensor hw1 s))) else 0)
         now_us (m\<lparr>sensor_distance := fst (read_tof_sensor hw1 s)\<rparr>)"
  by (simp add: game_task_menu_def split_beta Let_def)

lemma run_entry_confirm:
  assumes mode: "current_mode m = MENU"
    and new: "last_stable_selection m \<noteq> quadrant pos0"
    and pos0: "0 \<le> pos0"
    and d0: "in_selection_range d0"
    and pre: "list_all (holding (quadrant pos0) (timer_ms now0)) pre"
    and d1: "in_selection_range d1"
    and q1: "quadrant pos1 = quadrant pos0"
    and held: "SELECTION_HOLD_TIME \<le> timer_ms now1 - timer_ms now0"
  shows "candidate (quadrant pos0) (timer_ms now0) (menu_run ((d0, pos0, now0) # pre) m)"
    and "menu_run ((d0, pos0, now0) # pre @ (d1, pos1, now1) # post) m
          = (menu_run ((d0, pos0, now0) # pre) m)
              \<lparr>sensor_distance := d1,
               current_mode := start_game (quadrant pos0) MENU,
               menu_selection := - 1, last_stable_selection := - 1,
               selection_start_time := 0\<rparr>"
    and "start_game (quadrant pos0) MENU \<noteq> MENU"
proof -
  let ?q = "quadrant pos0" and ?t = "timer_ms now0"
  let ?m1 = "menu_case pos0 now0 (m\<lparr>sensor_distance := d0\<rparr>)"
  have c1: "candidate ?q ?t ?m1"
    using mode by (simp add: menu_restart [OF d0 new [symmetric]] candidate_def)
  have run1: "menu_run ((d0, pos0, now0) # pre) m = menu_run pre ?m1"
    using mode by simp
  from c1 pre have c2: "candidate ?q ?t (menu_run pre ?m1)" by (rule run_hold)
  then show "candidate ?q ?t (menu_run ((d0, pos0, now0) # pre) m)"
    by (simp only: run1)
  let ?m2 = "menu_run pre ?m1"
  from c2 have f: "current_mode ?m2 = MENU" "last_stable_selection ?m2 = ?q"
      "menu_selection ?m2 = ?q" "selection_start_time ?m2 = ?t"
    by (simp_all add: candidate_def)
  have h: "quadrant pos1 = last_stable_selection ?m2"
      "SELECTION_HOLD_TIME \<le> timer_ms now1 - selection_start_time ?m2"
    using q1 held f by simp_all
  from quadrant_range [OF pos0] have leaves: "start_game ?q MENU \<noteq> MENU"
    by (intro start_game_leaves) simp_all
  then show "start_game ?q MENU \<noteq> MENU" .
  have "menu_run ((d0, pos0, now0) # pre @ (d1, pos1, now1) # post) m
      = menu_run ((d1, pos1, now1) # post) ?m2"
    using menu_run_append [of "(d0, pos0, now0) # pre" "(d1, pos1, now1) # post" m] run1
    by simp
  also have "\<dots> = menu_run post (menu_case pos1 now1 (?m2\<lparr>sensor_distance := d1\<rparr>))"
    using f by simp
  also have "menu_case pos1 now1 (?m2\<lparr>sensor_distance := d1\<rparr>)
      = ?m2\<lparr>sensor_distance := d1, current_mode := start_game ?q MENU,
             menu_selection := - 1, last_stable_selection := - 1, selection_start_time := 0\<rparr>"
    using menu_confirm [OF d1 h] f by simp
  also have "menu_run post \<dots> = \<dots>"
    using leaves by (intro menu_run_stopped) simp
  finally show "menu_run ((d0, pos0, now0) # pre @ (d1, pos1, now1) # post) m
          = (menu_run ((d0, pos0, now0) # pre) m)
              \<lparr>sensor_distance := d1,
               current_mode := start_game (quadrant pos0) MENU,
               menu_selection := - 1, last_stable_selection := - 1,
               selection_start_time := 0\<rparr>"
    by (simp only: run1)
qed

text \<open>
  C2, as stated: in menu mode any sample outside the valid selection range [100,350 mm]
  resets the machine to Idle. Each menu iteration reads the sensor twice: the reading
  stored in \<open>sensor_distance\<close> is checked against the range, and \<open>get_sensor_position\<close>
  then takes a fresh reading for the quadrant, which is not checked. With a first reading
  of 200 mm and a second of 400 mm the machine leaves Idle for the candidate quadrant 3
  although the latest sample is out of range.
\<close>

theorem second_sample_unchecked:
  "\<not> in_selection_range 400
   \<and> read_all [Some 200, Some 400] (init_tof_sensor True) = [200, 400]
   \<and> last_stable_selection
        (snd (game_task_menu (Some 200) (Some 400) 1000000 (init_tof_sensor True, menu_boot)))
       = 3
   \<and> menu_selection
        (snd (game_task_menu (Some 200) (Some 400) 1000000 (init_tof_sensor True, menu_boot)))
       = 3
   \<and> selection_start_time
        (snd (game_task_menu (Some 200) (Some 400) 1000000 (init_tof_sensor True, menu_boot)))
       = 1000"
  by (simp add: game_task_menu_def read_tof_sensor_def init_tof_sensor_def menu_boot_def
      get_sensor_position_def sensor_position_def menu_case_def in_selection_range_def
      MIN_SELECTION_DISTANCE_def MAX_SELECTION_DISTANCE_def quadrant_def c_div_def timer_ms_def
      Let_def)

text \<open>
  C2, amended: in menu mode every iteration stores one sensor reading in
  \<open>sensor_distance\<close> and, when that reading is within [100,350 mm], computes the quadrant
  from a second reading. A sequence of iterations whose stored readings are in range and
  whose positions map to the same quadrant yields exactly one Confirmed transition, on
  the first iteration at which the millisecond timer has advanced by at least 5000 since
  the candidate was established and never before; later iterations of the sequence no
  longer run the menu code. An iteration whose stored reading is outside [100,350 mm]
  resets the machine to Idle, and the hold timer restarts both on re-entry from Idle and
  whenever the computed quadrant changes. The timer difference is the difference of the
  millisecond clock as long as it stays below \<open>2 ^ 32\<close> ms.
\<close>

theorem selection_hold_confirms:
  "(current_mode m = MENU \<and> last_stable_selection m \<noteq> quadrant pos0 \<and> 0 \<le> pos0
      \<and> in_selection_range d0
      \<and> list_all (holding (quadrant pos0) (timer_ms now0)) pre
      \<and> in_selection_range d1 \<and> quadrant pos1 = quadrant pos0
      \<and> SELECTION_HOLD_TIME \<le> timer_ms now1 - timer_ms now0
    \<longrightarrow> candidate (quadrant pos0) (timer_ms now0) (menu_run ((d0, pos0, now0) # pre) m)
        \<and> menu_run ((d0, pos0, now0) # pre @ (d1, pos1, now1) # post) m
            = (menu_run ((d0, pos0, now0) # pre) m)
                \<lparr>sensor_distance := d1,
                 current_mode := start_game (quadrant pos0) MENU,
                 menu_selection := - 1, last_stable_selection := - 1,
                 selection_start_time := 0\<rparr>
        \<and> start_game (quadrant pos0) MENU \<noteq> MENU)
   \<and> (\<not> in_selection_range d \<longrightarrow>
        menu_case pos now (m\<lparr>sensor_distance := d\<rparr>)
          = m\<lparr>sensor_distance := d, menu_selection := - 1, last_stable_selection := - 1,
              selection_start_time := 0\<rparr>)
   \<and> (in_selection_range d \<and> quadrant pos \<noteq> last_stable_selection m \<longrightarrow>
        menu_case pos now (m\<lparr>sensor_distance := d\<rparr>)
          = m\<lparr>sensor_distance := d, last_stable_selection := quadrant pos,
              selection_start_time := timer_ms now, menu_selection := quadrant pos\<rparr>)
   \<and> snd (game_task_menu hw1 hw2 now (s, m))
        = menu_case (if in_selection_range (fst (read_tof_sensor hw1 s))
                     then fst (get_sensor_position hw2 (snd (read_tof_sensor hw1 s))) else 0)
            now (m\<lparr>sensor_distance := fst (read_tof_sensor hw1 s)\<rparr>)
   \<and> in_selection_range d = (100 \<le> d \<and> d \<le> 350)
   \<and> (0 \<le> t0 \<and> t0 \<le> t \<and> t div 1000 - t0 div 1000 < 2 ^ 32 \<longrightarrow>
        uint (timer_ms t - timer_ms t0) = t div 1000 - t0 div 1000)"
proof (intro conjI impI)
  assume a: "current_mode m = MENU \<and> last_stable_selection m \<noteq> quadrant pos0 \<and> 0 \<le> pos0
      \<and> in_selection_range d0
      \<and> list_all (holding (quadrant pos0) (timer_ms now0)) pre
      \<and> in_selection_range d1 \<and> quadrant pos1 = quadrant pos0
      \<and> SELECTION_HOLD_TIME \<le> timer_ms now1 - timer_ms now0"
  then have f: "current_mode m = MENU" "last_stable_selection m \<noteq> quadrant pos0"
      "0 \<le> pos0" "in_selection_range d0"
      "list_all (holding (quadrant pos0) (timer_ms now0)) pre"
      "in_selection_range d1" "quadrant pos1 = quadrant pos0"
      "SELECTION_HOLD_TIME \<le> timer_ms now1 - timer_ms now0"
    by simp_all
  show "candidate (quadrant pos0) (timer_ms now0) (menu_run ((d0, pos0, now0) # pre) m)"
    using f by (rule run_entry_confirm(1))
  show "menu_run ((d0, pos0, now0) # pre @ (d1, pos1, now1) # post) m
            = (menu_run ((d0, pos0, now0) # pre) m)
                \<lparr>sensor_distance := d1,
                 current_mode := start_game (quadrant pos0) MENU,
                 menu_selection := - 1, last_stable_selection := - 1,
                 selection_start_time := 0\<rparr>"
    using f by (rule run_entry_confirm(2))
  show "start_game (quadrant pos0) MENU \<noteq> MENU"
    using f by (rule run_entry_confirm(3))
next
  assume "\<not> in_selection_range d"
  then show "menu_case pos now (m\<lparr>sensor_distance := d\<rparr>)
          = m\<lparr>sensor_distance := d, menu_selection := - 1, last_stable_selection := - 1,
              selection_start_time := 0\<rparr>"
    by (rule menu_out)
next
  assume "in_selection_range d \<and> quadrant pos \<noteq> last_stable_selection m"
  then show "menu_case pos now (m\<lparr>sensor_distance := d\<rparr>)
          = m\<lparr>sensor_distance := d, last_stable_selection := quadrant pos,
              selection_start_time := timer_ms now, menu_selection := quadrant pos\<rparr>"
    by (intro menu_restart) simp_all
next
  show "snd (game_task_menu hw1 hw2 now (s, m))
        = menu_case (if in_selection_range (fst (read_tof_sensor hw1 s))
                     then fst (get_sensor_position hw2 (snd (read_tof_sensor hw1 s))) else 0)
            now (m\<lparr>sensor_distance := fst (read_tof_sensor hw1 s)\<rparr>)"
    by (rule game_task_menu_eq)
next
  show "in_selection_range d = (100 \<le> d \<and> d \<le> 350)"
    by (simp add: in_selection_range_def MIN_SELECTION_DISTANCE_def MAX_SELECTION_DISTANCE_def)
next
  assume "0 \<le> t0 \<and> t0 \<le> t \<and> t div 1000 - t0 div 1000 < 2 ^ 32"
  then show "uint (timer_ms t - timer_ms t0) = t div 1000 - t0 div 1000"
    by (intro timer_elapsed) simp_all
qed

theorem selection_hold_confirms_witness:
  "sensor_position 120 = 3
   \<and> current_mode (menu_run [(120, 3, 1000000), (120, 3, 1050000), (120, 3, 5950000)] menu_boot)
       = MENU
   \<and> menu_run [(120, 3, 1000000), (120, 3, 1050000), (120, 3, 5950000),
               (120, 3, 6000000), (120, 3, 6050000)] menu_boot
       = \<lparr>sensor_distance = 120, current_mode = PONG, menu_selection = - 1,
          last_stable_selection = - 1, selection_start_time = 0\<rparr>
   \<and> menu_case 3 7000000
        \<lparr>sensor_distance = 400, current_mode = MENU, menu_selection = 0,
         last_stable_selection = 0, selection_start_time = 1000\<rparr>
       = \<lparr>sensor_distance = 400, current_mode = MENU, menu_selection = - 1,
          last_stable_selection = - 1, selection_start_time = 0\<rparr>
   \<and> uint (timer_ms 6000000 - timer_ms 1000000) = 5000"
  using selection_hold_confirms
    [where m = menu_boot and ?d0.0 = 120 and ?pos0.0 = 3 and ?now0.0 = 1000000
       and pre = "[(120, 3, 1050000), (120, 3, 5950000)]"
       and ?d1.0 = 120 and ?pos1.0 = 3 and ?now1.0 = 6000000 and post = "[(120, 3, 6050000)]"
       and d = 400 and pos = 3 and now = 7000000 and ?t0.0 = 1000000 and t = 6000000]
  by (simp add: menu_boot_def holding_def candidate_def in_selection_range_def
      MIN_SELECTION_DISTANCE_def MAX_SELECTION_DISTANCE_def SELECTION_HOLD_TIME_def
      quadrant_def c_div_def timer_ms_def start_game_def sensor_position_def menu_case_def
      Let_def)

end
